theory Spec2Isabelle
  imports Main "HOL-Library.Sublist"
begin

section \<open>Values shared by the handlers\<close>

text \<open>
  The values that \<^verbatim>\<open>json.loads\<close> returns and \<^verbatim>\<open>json.dumps\<close> accepts. An object keeps
  its members in insertion order, as a Python dict does. Numbers are integers only:
  no handler computes with a number.
\<close>

datatype json =
    JNull
  | JBool bool
  | JNum int
  | JStr string
  | JArr "json list"
  | JObj "(string \<times> json) list"

text \<open>
  What a handler (a \<^verbatim>\<open>BaseHTTPRequestHandler\<close>) sends, in the order of the calls:
  \<^verbatim>\<open>send_response(code)\<close>, \<^verbatim>\<open>send_header(k, v)\<close>, \<^verbatim>\<open>end_headers()\<close> and
  \<^verbatim>\<open>wfile.write(json.dumps(v).encode())\<close>. The body is kept as the JSON value that was
  serialised; the bytes \<^verbatim>\<open>json.dumps\<close> makes of it are the library's.
\<close>

datatype http_event =
    SendResponse nat
  | SendHeader string string
  | EndHeaders
  | WriteJson json

section \<open>The options handler (web\_ui/api/options.py)\<close>

text \<open>The dict literal \<^verbatim>\<open>{"value": v, "label": l, "description": d}\<close>.\<close>

definition option_entry :: "string \<Rightarrow> string \<Rightarrow> string \<Rightarrow> json" where
  "option_entry v l d = JObj [(''value'', JStr v), (''label'', JStr l), (''description'', JStr d)]"

text \<open>The dict \<^verbatim>\<open>options\<close> of \<^verbatim>\<open>do_GET\<close>, lines 11 to 42.\<close>

definition options :: json where
  "options = JObj
    [(''framework'', JArr
        [option_entry ''sklearn'' ''Scikit-learn'' ''Tabular data, Classic ML'',
         option_entry ''pytorch'' ''PyTorch'' ''Deep learning, Research'',
         option_entry ''tensorflow'' ''TensorFlow'' ''Production, Enterprise'']),
     (''task_type'', JArr
        [option_entry ''classification'' ''Classification'' ''Predict categories'',
         option_entry ''regression'' ''Regression'' ''Predict continuous values'',
         option_entry ''timeseries'' ''Time Series'' ''Time-based predictions'']),
     (''experiment_tracking'', JArr
        [option_entry ''mlflow'' ''MLflow'' ''Open-source ML tracking'',
         option_entry ''wandb'' ''W&B'' ''Cloud-based experiment tracking'',
         option_entry ''none'' ''None'' ''No experiment tracking'']),
     (''orchestration'', JArr
        [option_entry ''airflow'' ''Airflow'' ''Workflow orchestration'',
         option_entry ''kubeflow'' ''Kubeflow'' ''Kubernetes-native ML pipelines'',
         option_entry ''none'' ''None'' ''No orchestration'']),
     (''deployment'', JArr
        [option_entry ''fastapi'' ''FastAPI'' ''REST API deployment'',
         option_entry ''docker'' ''Docker'' ''Container deployment'',
         option_entry ''kubernetes'' ''Kubernetes'' ''Production-scale deployment'']),
     (''monitoring'', JArr
        [option_entry ''evidently'' ''Evidently'' ''Automated ML monitoring'',
         option_entry ''custom'' ''Custom'' ''Custom monitoring solution'',
         option_entry ''none'' ''None'' ''No monitoring''])]"

text \<open>
  \<^verbatim>\<open>handler.do_GET\<close> of options.py. It reads nothing of the request: its only argument
  is what the handler has sent so far, and it returns that with the response appended.
\<close>

definition do_GET :: "http_event list \<Rightarrow> http_event list" where
  "do_GET sent =
     sent @
     [SendResponse 200,
      SendHeader ''Content-type'' ''application/json'',
      SendHeader ''Access-Control-Allow-Origin'' ''*'',
      EndHeaders,
      WriteJson options]"

text \<open>
  Modelled from the spec: the option domain table of section 6 of the specification
  (the validator that accepts these strings, generator/validators.py, is not among the
  sources). One row per option, in the table's order.
\<close>

definition option_domain :: "(string \<times> string list) list" where
  "option_domain =
    [(''framework'', [''sklearn'', ''pytorch'', ''tensorflow'']),
     (''task_type'', [''classification'', ''regression'', ''timeseries'']),
     (''experiment_tracking'', [''mlflow'', ''wandb'', ''none'']),
     (''orchestration'', [''airflow'', ''kubeflow'', ''none'']),
     (''deployment'', [''fastapi'', ''docker'', ''kubernetes'']),
     (''monitoring'', [''evidently'', ''custom'', ''none''])]"

text \<open>Reading a JSON value back: the members of an object, the items of an array.\<close>

fun members :: "json \<Rightarrow> (string \<times> json) list" where
  "members (JObj kvs) = kvs"
| "members _ = []"

fun elements :: "json \<Rightarrow> json list" where
  "elements (JArr xs) = xs"
| "elements _ = []"

definition keys :: "json \<Rightarrow> string list" where
  "keys j = map fst (members j)"

text \<open>The string under key \<open>k\<close> of an object, if the object has one there.\<close>

definition str_member :: "string \<Rightarrow> json \<Rightarrow> string option" where
  "str_member k j = (case map_of (members j) k of Some (JStr s) \<Rightarrow> Some s | _ \<Rightarrow> None)"

text \<open>The body of a response: what was written after the headers ended.\<close>

fun bodies :: "http_event list \<Rightarrow> json list" where
  "bodies [] = []"
| "bodies (WriteJson j # es) = j # bodies es"
| "bodies (_ # es) = bodies es"

fun statuses :: "http_event list \<Rightarrow> nat list" where
  "statuses [] = []"
| "statuses (SendResponse c # es) = c # statuses es"
| "statuses (_ # es) = statuses es"

section \<open>Exceptions\<close>

text \<open>
  A raised Python exception: its class, as far as the handlers tell classes apart, and
  \<^verbatim>\<open>str(e)\<close>. \<^verbatim>\<open>except Exception\<close> catches an instance of \<^verbatim>\<open>Exception\<close>, which
  \<^verbatim>\<open>typer.Exit\<close> (a \<^verbatim>\<open>RuntimeError\<close>) is, and lets \<^verbatim>\<open>KeyboardInterrupt\<close>,
  \<^verbatim>\<open>SystemExit\<close> and \<^verbatim>\<open>GeneratorExit\<close> pass.
\<close>

datatype exn_class =
    ExceptionClass
  | BaseExceptionClass
  | ExitClass int

datatype exn = Exn exn_class string

fun is_Exception :: "exn \<Rightarrow> bool" where
  "is_Exception (Exn BaseExceptionClass s) = False"
| "is_Exception (Exn ExceptionClass s) = True"
| "is_Exception (Exn (ExitClass c) s) = True"

fun py_str :: "exn \<Rightarrow> string" where
  "py_str (Exn c s) = s"

text \<open>The exit code an exception carries, if it is a \<^verbatim>\<open>typer.Exit\<close>.\<close>

fun exit_code :: "exn \<Rightarrow> int option" where
  "exit_code (Exn (ExitClass c) s) = Some c"
| "exit_code (Exn _ s) = None"

text \<open>
  An error of the operating system or of a library, named by its Python class. The
  message text the system gives is not modelled: the name stands for it.
\<close>

definition py_error :: "string \<Rightarrow> exn" where
  "py_error name = Exn ExceptionClass name"

text \<open>\<^verbatim>\<open>typer.Exit(1)\<close>, line 126 of cli.py.\<close>

definition typer_Exit_1 :: exn where
  "typer_Exit_1 = Exn (ExitClass 1) ''1''"

section \<open>The file system\<close>

text \<open>
  A file system is a tree. A directory lists its entries by name, in the order a scan
  returns them; a regular file holds data; everything else (a FIFO, a socket, a
  device) is \<open>Special\<close>. Symbolic links and permissions are not modelled. The data of a
  file is bytes, or the entries of a ZIP archive: each an archive name and the data
  stored under it, in the order they were written.
\<close>

datatype filedata =
    Bytes string
  | ZipArchive "(string list \<times> filedata) list"

datatype node =
    File filedata
  | Dir "(string \<times> node) list"
  | Special

text \<open>A path is the list of its components below the root directory.\<close>

type_synonym path = "string list"

fun lookup_path :: "node \<Rightarrow> path \<Rightarrow> node option"
  and lookup_in :: "(string \<times> node) list \<Rightarrow> string \<Rightarrow> path \<Rightarrow> node option" where
  "lookup_path n [] = Some n"
| "lookup_path (Dir es) (x # p) = lookup_in es x p"
| "lookup_path (File d) (x # p) = None"
| "lookup_path Special (x # p) = None"
| "lookup_in [] x p = None"
| "lookup_in ((y, n) # es) x p = (if x = y then lookup_path n p else lookup_in es x p)"

text \<open>
  \<open>store r p n\<close> puts the node \<open>n\<close> at path \<open>p\<close>: it replaces what is there, or adds an
  entry to the parent directory. \<open>None\<close> when the parent is missing or not a directory.
\<close>

fun store :: "node \<Rightarrow> path \<Rightarrow> node \<Rightarrow> node option"
  and store_in :: "(string \<times> node) list \<Rightarrow> string \<Rightarrow> path \<Rightarrow> node \<Rightarrow> (string \<times> node) list option" where
  "store old [] new = Some new"
| "store (Dir es) (x # p) new = map_option Dir (store_in es x p new)"
| "store (File d) (x # p) new = None"
| "store Special (x # p) new = None"
| "store_in [] x p new = (if p = [] then Some [(x, new)] else None)"
| "store_in ((y, n) # es) x p new =
     (if x = y then map_option (\<lambda>n'. (y, n') # es) (store n p new)
      else map_option ((#) (y, n)) (store_in es x p new))"

definition is_dir :: "node \<Rightarrow> path \<Rightarrow> bool" where
  "is_dir r p = (case lookup_path r p of Some (Dir es) \<Rightarrow> True | _ \<Rightarrow> False)"

definition is_file :: "node \<Rightarrow> path \<Rightarrow> bool" where
  "is_file r p = (case lookup_path r p of Some (File d) \<Rightarrow> True | _ \<Rightarrow> False)"

text \<open>
  Every path below a node, relative to it: each entry of a directory, then what lies
  below the entry. The order among the paths is the scan's; no claim rests on it.
\<close>

fun walk :: "node \<Rightarrow> path list"
  and walk_in :: "(string \<times> node) list \<Rightarrow> path list" where
  "walk (Dir es) = walk_in es"
| "walk (File d) = []"
| "walk Special = []"
| "walk_in [] = []"
| "walk_in ((x, n) # es) = [x] # map ((#) x) (walk n) @ walk_in es"

text \<open>A tree in which the names of the entries of every directory differ, as on a disk.\<close>

fun distinct_names :: "node \<Rightarrow> bool"
  and distinct_names_in :: "(string \<times> node) list \<Rightarrow> bool" where
  "distinct_names (Dir es) = distinct_names_in es"
| "distinct_names (File d) = True"
| "distinct_names Special = True"
| "distinct_names_in [] = True"
| "distinct_names_in ((x, n) # es) = (x \<notin> fst ` set es \<and> distinct_names n \<and> distinct_names_in es)"

text \<open>
  \<^verbatim>\<open>dir.rglob('*')\<close>: every path below \<open>dir\<close>, files and directories alike, hidden names
  included; nothing when \<open>dir\<close> is not a directory.
\<close>

definition rglob :: "node \<Rightarrow> path \<Rightarrow> path list" where
  "rglob r dir = (case lookup_path r dir of Some (Dir es) \<Rightarrow> map ((@) dir) (walk_in es) | _ \<Rightarrow> [])"

text \<open>\<^verbatim>\<open>p.relative_to(base)\<close>: a \<^verbatim>\<open>ValueError\<close> unless \<open>p\<close> lies in \<open>base\<close>.\<close>

definition relative_to :: "path \<Rightarrow> path \<Rightarrow> exn + path" where
  "relative_to p base =
     (if take (length base) p = base then Inr (drop (length base) p)
      else Inl (py_error ''ValueError''))"

section \<open>The state of the process and its effects\<close>

text \<open>What the command prints with \<^verbatim>\<open>console.print\<close>: the panel, with the values put in it.\<close>

datatype console_item =
    MainPanel
  | BlankLine
  | SuccessPanel json string string string string
  | NextStepsPanel "(nat \<times> string) list"
  | HappyCoding json
  | ErrorPanel string

text \<open>
  A call of a collaborator that is not among the sources, with its arguments; the
  renderer's two calls also record the working directory of the process at the call.
\<close>

datatype call =
    Call_get_user_choices
  | Call_validate_choices json
  | Call_ProjectRenderer json path
  | Call_generate_project path
  | Call_get_next_steps json json json

text \<open>
  The state a handler or the command runs in: the file system and the working directory
  of the process, what was sent to the client, what was printed on the console, and the
  collaborator calls made so far (a log the code does not keep: it is how the order of
  calls is stated).
\<close>

record world =
  root :: node
  cwd :: path
  wfile :: "http_event list"
  console :: "console_item list"
  calls :: "call list"

text \<open>A statement of the program: it returns a value or raises, and changes the state.\<close>

type_synonym 'a io = "world \<Rightarrow> (exn + 'a) \<times> world"

definition io_return :: "'a \<Rightarrow> 'a io" where
  "io_return x w = (Inr x, w)"

definition io_raise :: "exn \<Rightarrow> 'a io" where
  "io_raise e w = (Inl e, w)"

text \<open>The outcome of a call that has no effect on the state.\<close>

definition io_of :: "exn + 'a \<Rightarrow> 'a io" where
  "io_of r w = (r, w)"

text \<open>\<open>m\<close>, then \<open>f\<close> on its value; an exception of \<open>m\<close> skips \<open>f\<close>.\<close>

definition io_bind :: "'a io \<Rightarrow> ('a \<Rightarrow> 'b io) \<Rightarrow> 'b io" where
  "io_bind m f w = (case m w of (Inl e, w') \<Rightarrow> (Inl e, w') | (Inr x, w') \<Rightarrow> f x w')"

text \<open>\<^verbatim>\<open>try: m  except Exception as e: h\<close>.\<close>

definition try_except :: "'a io \<Rightarrow> (exn \<Rightarrow> 'a io) \<Rightarrow> 'a io" where
  "try_except m h w =
     (case m w of
        (Inl e, w') \<Rightarrow> if is_Exception e then h e w' else (Inl e, w')
      | (Inr x, w') \<Rightarrow> (Inr x, w'))"

text \<open>
  \<^verbatim>\<open>try: m  finally: fin\<close>. \<open>fin\<close> runs however \<open>m\<close> ends; an exception of \<open>fin\<close> replaces
  the outcome of \<open>m\<close>.
\<close>

definition try_finally :: "'a io \<Rightarrow> unit io \<Rightarrow> 'a io" where
  "try_finally m fin w =
     (case m w of
        (r, w') \<Rightarrow> (case fin w' of (Inl e, w'') \<Rightarrow> (Inl e, w'') | (Inr u, w'') \<Rightarrow> (r, w'')))"

subsection \<open>Operating system calls\<close>

text \<open>\<^verbatim>\<open>os.getcwd()\<close>: fails when the working directory no longer exists.\<close>

definition getcwd :: "path io" where
  "getcwd w =
     (if is_dir (root w) (cwd w) then (Inr (cwd w), w)
      else (Inl (py_error ''FileNotFoundError''), w))"

text \<open>\<^verbatim>\<open>os.chdir(p)\<close>.\<close>

definition chdir :: "path \<Rightarrow> unit io" where
  "chdir p w =
     (case lookup_path (root w) p of
        Some (Dir es) \<Rightarrow> (Inr (), w\<lparr>cwd := p\<rparr>)
      | Some n \<Rightarrow> (Inl (py_error ''NotADirectoryError''), w)
      | None \<Rightarrow> (Inl (py_error ''FileNotFoundError''), w))"

text \<open>\<^verbatim>\<open>p.mkdir(exist_ok=True)\<close>: the parent must exist; a directory already there is kept.\<close>

definition mkdir_exist_ok :: "path \<Rightarrow> unit io" where
  "mkdir_exist_ok p w =
     (case lookup_path (root w) p of
        Some (Dir es) \<Rightarrow> (Inr (), w)
      | Some n \<Rightarrow> (Inl (py_error ''FileExistsError''), w)
      | None \<Rightarrow>
          (case store (root w) p (Dir []) of
             None \<Rightarrow> (Inl (py_error ''FileNotFoundError''), w)
           | Some r \<Rightarrow> (Inr (), w\<lparr>root := r\<rparr>)))"

text \<open>
  Opening \<open>p\<close> for writing and leaving it with the data \<open>d\<close>: creates or replaces a
  regular file. A directory there refuses the write, and a special file is taken to.
\<close>

definition write_file :: "path \<Rightarrow> filedata \<Rightarrow> unit io" where
  "write_file p d w =
     (case lookup_path (root w) p of
        Some (Dir es) \<Rightarrow> (Inl (py_error ''IsADirectoryError''), w)
      | Some Special \<Rightarrow> (Inl (py_error ''OSError''), w)
      | other \<Rightarrow>
          (case store (root w) p (File d) of
             None \<Rightarrow> (Inl (py_error ''FileNotFoundError''), w)
           | Some r \<Rightarrow> (Inr (), w\<lparr>root := r\<rparr>)))"

subsection \<open>Sending and printing\<close>

definition send_response :: "nat \<Rightarrow> unit io" where
  "send_response code w = (Inr (), w\<lparr>wfile := wfile w @ [SendResponse code]\<rparr>)"

definition send_header :: "string \<Rightarrow> string \<Rightarrow> unit io" where
  "send_header k v w = (Inr (), w\<lparr>wfile := wfile w @ [SendHeader k v]\<rparr>)"

definition end_headers :: "unit io" where
  "end_headers w = (Inr (), w\<lparr>wfile := wfile w @ [EndHeaders]\<rparr>)"

definition wfile_write_json :: "json \<Rightarrow> unit io" where
  "wfile_write_json j w = (Inr (), w\<lparr>wfile := wfile w @ [WriteJson j]\<rparr>)"

definition console_print :: "console_item \<Rightarrow> unit io" where
  "console_print item w = (Inr (), w\<lparr>console := console w @ [item]\<rparr>)"

definition log_call :: "call \<Rightarrow> unit io" where
  "log_call c w = (Inr (), w\<lparr>calls := calls w @ [c]\<rparr>)"

section \<open>The collaborators that are not among the sources\<close>

text \<open>
  The handlers call code that is not part of the sources: the validator
  (generator/validators.py), the renderer (generator/renderer.py), the prompts
  (generator/prompts.py), \<^verbatim>\<open>get_next_steps\<close> (generator/utils.py), and library functions
  whose results the handlers only pass on. For one run they are the fields of an
  environment: each is the outcome of the call, a value or the exception raised.
  The validator has no effect on the state (section 4.1 of the specification); the
  renderer reads and changes the file system and the working directory and nothing
  else; \<open>'r\<close> is the type of the renderer object. The signatures are those of the call
  sites: \<^verbatim>\<open>validate_choices(data)\<close>, \<^verbatim>\<open>ProjectRenderer(data)\<close>,
  \<^verbatim>\<open>renderer.generate_project()\<close>. \<open>uuid4\<close> is \<^verbatim>\<open>str(uuid.uuid4())\<close>, one path component
  (36 characters, no separator among them). The imports of lines 19, 20, 31 and 32 of
  generate.py are taken to succeed.
\<close>

type_synonym os_state = "node \<times> path"

record 'r env =
  content_length :: "string option"
  py_int :: "string option \<Rightarrow> exn + int"
  rfile_read :: "int \<Rightarrow> exn + string"
  decode_utf8 :: "string \<Rightarrow> exn + string"
  json_loads :: "string \<Rightarrow> exn + json"
  validate_choices :: "json \<Rightarrow> exn + unit"
  uuid4 :: string
  mkdtemp_path :: path
  ProjectRenderer :: "json \<Rightarrow> os_state \<Rightarrow> (exn + 'r) \<times> os_state"
  generate_project :: "'r \<Rightarrow> os_state \<Rightarrow> (exn + unit) \<times> os_state"
  get_user_choices :: "exn + json"
  get_next_steps :: "json \<Rightarrow> json \<Rightarrow> json \<Rightarrow> exn + string list"
  str_title :: "string \<Rightarrow> string"

text \<open>A collaborator that works on the file system and the working directory, run in the state.\<close>

definition lift_os :: "(os_state \<Rightarrow> (exn + 'a) \<times> os_state) \<Rightarrow> 'a io" where
  "lift_os f w = (case f (root w, cwd w) of (r, (fs', cwd')) \<Rightarrow> (r, w\<lparr>root := fs', cwd := cwd'\<rparr>))"

text \<open>The calls, each entered in the log before it is made.\<close>

definition call_validate_choices :: "'r env \<Rightarrow> json \<Rightarrow> unit io" where
  "call_validate_choices env data =
     io_bind (log_call (Call_validate_choices data)) (\<lambda>u. io_of (validate_choices env data))"

definition call_ProjectRenderer :: "'r env \<Rightarrow> json \<Rightarrow> 'r io" where
  "call_ProjectRenderer env data =
     io_bind (\<lambda>w. log_call (Call_ProjectRenderer data (cwd w)) w)
       (\<lambda>u. lift_os (ProjectRenderer env data))"

definition call_generate_project :: "'r env \<Rightarrow> 'r \<Rightarrow> unit io" where
  "call_generate_project env renderer =
     io_bind (\<lambda>w. log_call (Call_generate_project (cwd w)) w)
       (\<lambda>u. lift_os (generate_project env renderer))"

definition call_get_user_choices :: "'r env \<Rightarrow> json io" where
  "call_get_user_choices env =
     io_bind (log_call Call_get_user_choices) (\<lambda>u. io_of (get_user_choices env))"

definition call_get_next_steps :: "'r env \<Rightarrow> json \<Rightarrow> json \<Rightarrow> json \<Rightarrow> string list io" where
  "call_get_next_steps env framework task_type deployment =
     io_bind (log_call (Call_get_next_steps framework task_type deployment))
       (\<lambda>u. io_of (get_next_steps env framework task_type deployment))"

text \<open>
  \<^verbatim>\<open>tempfile.mkdtemp()\<close>: a new, empty directory. The name the library picked is the
  environment's \<open>mkdtemp_path\<close>; the call fails when that name is taken or its parent is
  no directory.
\<close>

definition mkdtemp :: "'r env \<Rightarrow> path io" where
  "mkdtemp env w =
     (case lookup_path (root w) (mkdtemp_path env) of
        Some n \<Rightarrow> (Inl (py_error ''FileExistsError''), w)
      | None \<Rightarrow>
          (case store (root w) (mkdtemp_path env) (Dir []) of
             None \<Rightarrow> (Inl (py_error ''FileNotFoundError''), w)
           | Some r \<Rightarrow> (Inr (mkdtemp_path env), w\<lparr>root := r\<rparr>)))"

section \<open>The generate handler (web\_ui/api/generate.py)\<close>

text \<open>
  Lines 14 to 16: the length header read with \<^verbatim>\<open>int\<close>, the body read, decoded and
  parsed. The first step that raises ends the reading.
\<close>

definition read_request :: "'r env \<Rightarrow> exn + json" where
  "read_request env =
     (case py_int env (content_length env) of
        Inl e \<Rightarrow> Inl e
      | Inr n \<Rightarrow>
          (case rfile_read env n of
             Inl e \<Rightarrow> Inl e
           | Inr post_data \<Rightarrow>
               (case decode_utf8 env post_data of
                  Inl e \<Rightarrow> Inl e
                | Inr text \<Rightarrow> json_loads env text)))"

text \<open>
  The five lines that send a JSON response (lines 64 to 68, 71 to 76 and 79 to 84): the
  status line, the two headers, the end of the headers, the body.
\<close>

definition send_json :: "nat \<Rightarrow> json \<Rightarrow> unit io" where
  "send_json code body =
     io_bind (send_response code) (\<lambda>u.
     io_bind (send_header ''Content-type'' ''application/json'') (\<lambda>u.
     io_bind (send_header ''Access-Control-Allow-Origin'' ''*'') (\<lambda>u.
     io_bind end_headers (\<lambda>u.
     wfile_write_json body))))"

text \<open>
  The rendering operation, as both call sites write it (lines 42 and 43 of generate.py,
  lines 73 and 74 of cli.py): \<^verbatim>\<open>renderer = ProjectRenderer(data);
  renderer.generate_project()\<close>.
\<close>

definition render :: "'r env \<Rightarrow> json \<Rightarrow> unit io" where
  "render env data =
     io_bind (call_ProjectRenderer env data) (\<lambda>renderer.
     call_generate_project env renderer)"

text \<open>
  Lines 40 to 45: \<^verbatim>\<open>try: os.chdir(project_dir); (render)  finally: os.chdir(original_cwd)\<close>.
\<close>

definition render_in :: "'r env \<Rightarrow> json \<Rightarrow> path \<Rightarrow> path \<Rightarrow> unit io" where
  "render_in env data project_dir original_cwd =
     try_finally
       (io_bind (chdir project_dir) (\<lambda>u. render env data))
       (chdir original_cwd)"

text \<open>\<^verbatim>\<open>zipf.write(file_path, arcname)\<close>: the file is read and stored under \<open>arcname\<close>.\<close>

definition zipf_write ::
  "node \<Rightarrow> path \<Rightarrow> path \<Rightarrow> (path \<times> filedata) list \<Rightarrow> exn + (path \<times> filedata) list" where
  "zipf_write r file_path arcname zipf =
     (case lookup_path r file_path of
        Some (File d) \<Rightarrow> Inr (zipf @ [(arcname, d)])
      | other \<Rightarrow> Inl (py_error ''OSError''))"

text \<open>The loop of lines 50 to 53, over the paths \<^verbatim>\<open>rglob\<close> gave.\<close>

fun zip_loop ::
  "node \<Rightarrow> path \<Rightarrow> path list \<Rightarrow> (path \<times> filedata) list \<Rightarrow> exn + (path \<times> filedata) list" where
  "zip_loop r project_dir [] zipf = Inr zipf"
| "zip_loop r project_dir (file_path # rest) zipf =
     (if is_file r file_path then
        (case relative_to file_path project_dir of
           Inl e \<Rightarrow> Inl e
         | Inr arcname \<Rightarrow>
             (case zipf_write r file_path arcname zipf of
                Inl e \<Rightarrow> Inl e
              | Inr zipf' \<Rightarrow> zip_loop r project_dir rest zipf'))
      else zip_loop r project_dir rest zipf)"

text \<open>
  Lines 49 to 53: the archive is opened for writing at \<open>zip_path\<close> (an empty archive is
  on disk from then on), the loop adds its entries, and leaving the \<^verbatim>\<open>with\<close> block
  writes the archive out.
\<close>

definition write_zip :: "path \<Rightarrow> path \<Rightarrow> unit io" where
  "write_zip zip_path project_dir =
     io_bind (write_file zip_path (ZipArchive [])) (\<lambda>u.
     io_bind (\<lambda>w. (zip_loop (root w) project_dir (rglob (root w) project_dir) [], w)) (\<lambda>zipf.
     write_file zip_path (ZipArchive zipf)))"

text \<open>
  Lines 34 to 53, the first part of the inner \<^verbatim>\<open>try\<close>: the temporary directory, the
  project directory in it, the rendering, the archive.
\<close>

definition generate_zip :: "'r env \<Rightarrow> json \<Rightarrow> string \<Rightarrow> unit io" where
  "generate_zip env data task_id =
     io_bind (mkdtemp env) (\<lambda>temp_dir.
     let project_dir = temp_dir @ [task_id] in
     io_bind (mkdir_exist_ok project_dir) (\<lambda>u.
     io_bind getcwd (\<lambda>original_cwd.
     io_bind (render_in env data project_dir original_cwd) (\<lambda>u.
     let zip_path = temp_dir @ [task_id @ ''.zip''] in
     write_zip zip_path project_dir))))"

text \<open>The dict \<^verbatim>\<open>response\<close>, lines 57 to 62.\<close>

definition response :: "string \<Rightarrow> json" where
  "response task_id = JObj
     [(''task_id'', JStr task_id),
      (''status'', JStr ''completed''),
      (''message'', JStr ''Project generated successfully''),
      (''download_url'', JStr (''/api/download?task_id='' @ task_id))]"

text \<open>The dicts \<^verbatim>\<open>error_response\<close>, lines 75 and 83.\<close>

definition error_response :: "string \<Rightarrow> exn \<Rightarrow> json" where
  "error_response label e = JObj [(''error'', JStr (label @ py_str e))]"

text \<open>\<^verbatim>\<open>handler.do_POST\<close>, lines 12 to 84.\<close>

definition do_POST :: "'r env \<Rightarrow> unit io" where
  "do_POST env =
     try_except
       (io_bind (io_of (read_request env)) (\<lambda>data.
        io_bind (call_validate_choices env data) (\<lambda>u.
        let task_id = uuid4 env in
        try_except
          (io_bind (generate_zip env data task_id) (\<lambda>u.
           send_json 200 (response task_id)))
          (\<lambda>e. send_json 500 (error_response ''Generation failed: '' e)))))
       (\<lambda>e. send_json 400 (error_response ''Invalid request: '' e))"

section \<open>The command (generator/cli.py)\<close>

text \<open>\<^verbatim>\<open>choices[k]\<close>: a \<^verbatim>\<open>KeyError\<close> when a dict lacks the key, a \<^verbatim>\<open>TypeError\<close> on other values.\<close>

definition subscript :: "json \<Rightarrow> string \<Rightarrow> exn + json" where
  "subscript j k =
     (case j of
        JObj kvs \<Rightarrow> (case map_of kvs k of Some v \<Rightarrow> Inr v | None \<Rightarrow> Inl (py_error ''KeyError''))
      | other \<Rightarrow> Inl (py_error ''TypeError''))"

text \<open>\<^verbatim>\<open>v.title()\<close>: only a string has the method.\<close>

definition title :: "'r env \<Rightarrow> json \<Rightarrow> exn + string" where
  "title env j =
     (case j of JStr s \<Rightarrow> Inr (str_title env s) | other \<Rightarrow> Inl (py_error ''AttributeError''))"

text \<open>\<^verbatim>\<open>choices[k].title()\<close>.\<close>

definition subscript_title :: "'r env \<Rightarrow> json \<Rightarrow> string \<Rightarrow> exn + string" where
  "subscript_title env j k = (case subscript j k of Inl e \<Rightarrow> Inl e | Inr v \<Rightarrow> title env v)"

text \<open>
  Lines 76 to 120 of \<^verbatim>\<open>init\<close>: the summary of the choices, the next steps, the closing
  line. The panels are built by the rich library, whose own checks of what it is given
  are not modelled: a panel keeps the values put in it.
\<close>

definition report_success :: "'r env \<Rightarrow> json \<Rightarrow> unit io" where
  "report_success env choices =
     io_bind (io_of (subscript choices ''project_name'')) (\<lambda>project_name.
     io_bind (io_of (subscript_title env choices ''framework'')) (\<lambda>framework.
     io_bind (io_of (subscript_title env choices ''task_type'')) (\<lambda>task_type.
     io_bind (io_of (subscript_title env choices ''experiment_tracking'')) (\<lambda>tracking.
     io_bind (io_of (subscript_title env choices ''deployment'')) (\<lambda>deployment.
     io_bind (console_print (SuccessPanel project_name framework task_type tracking deployment)) (\<lambda>u.
     io_bind (io_of (subscript choices ''framework'')) (\<lambda>a.
     io_bind (io_of (subscript choices ''task_type'')) (\<lambda>b.
     io_bind (io_of (subscript choices ''deployment'')) (\<lambda>c.
     io_bind (call_get_next_steps env a b c) (\<lambda>next_steps.
     io_bind (console_print (NextStepsPanel (enumerate 1 next_steps))) (\<lambda>u.
     io_bind (io_of (subscript choices ''project_name'')) (\<lambda>name.
     console_print (HappyCoding name)))))))))))))"

text \<open>The body of the \<^verbatim>\<open>try\<close> of \<^verbatim>\<open>init\<close>, lines 66 to 120.\<close>

definition init_body :: "'r env \<Rightarrow> unit io" where
  "init_body env =
     io_bind (call_get_user_choices env) (\<lambda>choices.
     io_bind (call_validate_choices env choices) (\<lambda>u.
     io_bind (render env choices) (\<lambda>u.
     report_success env choices)))"

text \<open>
  \<^verbatim>\<open>init\<close>, lines 28 to 126: the banner and an empty line, the body, and the handler of
  lines 122 to 126, which prints the error and raises \<^verbatim>\<open>typer.Exit(1)\<close>.
\<close>

definition init :: "'r env \<Rightarrow> unit io" where
  "init env =
     io_bind (console_print MainPanel) (\<lambda>u.
     io_bind (console_print BlankLine) (\<lambda>u.
     try_except (init_body env)
       (\<lambda>e. io_bind (console_print (ErrorPanel (py_str e))) (\<lambda>u. io_raise typer_Exit_1))))"

section \<open>Reading the log of calls\<close>

text \<open>The calls of the renderer: its constructor and \<^verbatim>\<open>generate_project\<close>.\<close>

fun is_render_call :: "call \<Rightarrow> bool" where
  "is_render_call (Call_ProjectRenderer data p) = True"
| "is_render_call (Call_generate_project p) = True"
| "is_render_call c = False"

text \<open>The collaborator a call went to.\<close>

fun callee :: "call \<Rightarrow> string" where
  "callee Call_get_user_choices = ''get_user_choices''"
| "callee (Call_validate_choices data) = ''validate_choices''"
| "callee (Call_ProjectRenderer data p) = ''ProjectRenderer''"
| "callee (Call_generate_project p) = ''generate_project''"
| "callee (Call_get_next_steps a b c) = ''get_next_steps''"

text \<open>The calls a run added to the log of the state it started in.\<close>

definition new_calls :: "world \<Rightarrow> world \<Rightarrow> call list" where
  "new_calls w w' = drop (length (calls w)) (calls w')"

text \<open>What a run sent, after what the state it started in had sent.\<close>

definition sent_by :: "world \<Rightarrow> world \<Rightarrow> http_event list" where
  "sent_by w w' = drop (length (wfile w)) (wfile w')"

section \<open>The validator and the renderer, from the specification\<close>

text \<open>
  A choice set as the specification has it (section 3): a mapping from option name to
  the selected value string.
\<close>

type_synonym choice_set = "string \<Rightarrow> string option"

text \<open>
  Modelled from the spec: the \<^verbatim>\<open>ValidationError\<close> of section 4.1, naming the offending
  field and its allowed values (generator/validators.py is not among the sources).
\<close>

datatype validation_error = ValidationError string "string list"

definition required_keys :: "string list" where
  "required_keys =
     [''project_name'', ''framework'', ''task_type'', ''experiment_tracking'', ''deployment'']"

definition allowed_values :: "string \<Rightarrow> string list" where
  "allowed_values k = (case map_of option_domain k of Some vs \<Rightarrow> vs | None \<Rightarrow> [])"

text \<open>
  A project name is acceptable when it is not empty and holds no character that is
  unsafe in a directory name. The specification does not list the unsafe characters:
  they are the parameter \<open>unsafe\<close>.
\<close>

definition filesystem_safe :: "(char \<Rightarrow> bool) \<Rightarrow> string \<Rightarrow> bool" where
  "filesystem_safe unsafe name = (name \<noteq> [] \<and> \<not> list_ex unsafe name)"

text \<open>A row of the domain table whose option is present with a value outside the row.\<close>

definition out_of_domain :: "choice_set \<Rightarrow> string \<times> string list \<Rightarrow> bool" where
  "out_of_domain cs row = (case cs (fst row) of None \<Rightarrow> False | Some v \<Rightarrow> v \<notin> set (snd row))"

text \<open>
  Modelled from the spec: the Choice Validator of section 4.1 (generator/validators.py
  is not among the sources). It fails when a required key is missing, when a key's value
  is not in its declared domain, or when \<^verbatim>\<open>project_name\<close> is empty or unsafe, in
  this order; the error names the first offending field found and its allowed values.
\<close>

definition validate :: "(char \<Rightarrow> bool) \<Rightarrow> choice_set \<Rightarrow> validation_error + unit" where
  "validate unsafe cs =
     (case find (\<lambda>k. cs k = None) required_keys of
        Some k \<Rightarrow> Inl (ValidationError k (allowed_values k))
      | None \<Rightarrow>
          (case find (out_of_domain cs) option_domain of
             Some row \<Rightarrow> Inl (ValidationError (fst row) (snd row))
           | None \<Rightarrow>
               (case cs ''project_name'' of
                  None \<Rightarrow> Inl (ValidationError ''project_name'' [])
                | Some name \<Rightarrow>
                    if filesystem_safe unsafe name then Inr ()
                    else Inl (ValidationError ''project_name'' []))))"

text \<open>A field that makes a choice set invalid, in the three ways of section 4.1.\<close>

definition offending :: "(char \<Rightarrow> bool) \<Rightarrow> choice_set \<Rightarrow> string \<Rightarrow> bool" where
  "offending unsafe cs f =
     (f \<in> set required_keys \<and> cs f = None
      \<or> list_ex (\<lambda>row. fst row = f \<and> out_of_domain cs row) option_domain
      \<or> f = ''project_name'' \<and> (case cs f of None \<Rightarrow> True | Some name \<Rightarrow> \<not> filesystem_safe unsafe name))"

text \<open>
  Modelled from the spec: the file groups the Project Renderer emits, as section 4.2
  names them (generator/renderer.py and its templates are not among the sources). A
  group that depends on a choice carries the chosen value.
\<close>

datatype artifact =
    ProjectMetadata
  | DependencyManifest
  | LicenseGitignore
  | TopLevelConfig
  | FrameworkSubtree string
  | TaskTypeStub string
  | TrackingIntegration string
  | OrchestrationStubs string
  | ApiEntrypoint
  | Dockerfile
  | K8sManifests
  | MonitoringStubs string

text \<open>The value chosen for an option; an absent option counts as the sentinel \<^verbatim>\<open>none\<close>.\<close>

definition chosen :: "choice_set \<Rightarrow> string \<Rightarrow> string" where
  "chosen cs k = (case cs k of Some v \<Rightarrow> v | None \<Rightarrow> ''none'')"

text \<open>
  Modelled from the spec: step 6 of section 4.2. \<^verbatim>\<open>fastapi\<close> gives the API entrypoint,
  \<^verbatim>\<open>docker\<close> the Dockerfile, \<^verbatim>\<open>kubernetes\<close> the Dockerfile and the manifests.
\<close>

definition deployment_artifacts :: "string \<Rightarrow> artifact list" where
  "deployment_artifacts d =
     (if d = ''fastapi'' then [ApiEntrypoint]
      else if d = ''docker'' then [Dockerfile]
      else if d = ''kubernetes'' then [Dockerfile, K8sManifests]
      else [])"

text \<open>Modelled from the spec: steps 1 to 7 of section 4.2, in their order.\<close>

definition artifacts :: "choice_set \<Rightarrow> artifact list" where
  "artifacts cs =
     [ProjectMetadata, DependencyManifest, LicenseGitignore, TopLevelConfig]
     @ [FrameworkSubtree (chosen cs ''framework'')]
     @ [TaskTypeStub (chosen cs ''task_type'')]
     @ (if chosen cs ''experiment_tracking'' = ''none'' then []
        else [TrackingIntegration (chosen cs ''experiment_tracking'')])
     @ (if chosen cs ''orchestration'' = ''none'' then []
        else [OrchestrationStubs (chosen cs ''orchestration'')])
     @ deployment_artifacts (chosen cs ''deployment'')
     @ (if chosen cs ''monitoring'' = ''none'' then []
        else [MonitoringStubs (chosen cs ''monitoring'')])"

text \<open>
  The template assets, which the specification does not give: the relative paths of the
  files of each group, and the content of each file for a choice set.
\<close>

record templates =
  paths_of :: "artifact \<Rightarrow> path list"
  content_of :: "choice_set \<Rightarrow> path \<Rightarrow> string"

definition file_paths :: "templates \<Rightarrow> choice_set \<Rightarrow> path list" where
  "file_paths tpl cs = concat (map (paths_of tpl) (artifacts cs))"

text \<open>
  Modelled from the spec: \<^verbatim>\<open>generate(choices, target_dir)\<close> of section 4.2
  (generator/renderer.py is not among the sources), on a file system seen as a map from
  the path of a file to its content. After it the files below \<open>target_dir\<close> are exactly
  those of the emitted groups, each with the content the templates give for the choice
  set, and nothing a prior run left there remains (section 3: the same file set, the
  same contents, no leftover files); every path outside \<open>target_dir\<close> is as it was.
  The two failures of section 4.2, a target that cannot be written and a missing
  template asset, do not arise on a map with total templates and are not modelled.
  Section 9 notes that what the original does on a target that is not empty is not
  known; the definition follows section 3 there.
\<close>

definition generate ::
  "templates \<Rightarrow> choice_set \<Rightarrow> path \<Rightarrow> (path \<Rightarrow> string option) \<Rightarrow> (path \<Rightarrow> string option)" where
  "generate tpl cs target_dir files p =
     (if take (length target_dir) p = target_dir
      then (if drop (length target_dir) p \<in> set (file_paths tpl cs)
            then Some (content_of tpl cs (drop (length target_dir) p))
            else None)
      else files p)"

section \<open>Concrete inputs\<close>

text \<open>The choice set of the first example scenario of section 8, as a request body.\<close>

definition demo_choices :: json where
  "demo_choices = JObj
     [(''project_name'', JStr ''demo''),
      (''framework'', JStr ''sklearn''),
      (''task_type'', JStr ''classification''),
      (''experiment_tracking'', JStr ''none''),
      (''deployment'', JStr ''fastapi'')]"

text \<open>The second example scenario of section 8: a framework outside the domain.\<close>

definition bogus_choices :: json where
  "bogus_choices = JObj
     [(''project_name'', JStr ''x''),
      (''framework'', JStr ''bogus''),
      (''task_type'', JStr ''classification''),
      (''experiment_tracking'', JStr ''none''),
      (''deployment'', JStr ''fastapi'')]"

text \<open>The choice set a JSON object stands for: its members that are strings.\<close>

definition choice_set_of :: "json \<Rightarrow> choice_set" where
  "choice_set_of data k = str_member k data"

text \<open>A validator for the concrete runs: the one above, with the slash as the unsafe character.\<close>

definition demo_validate :: "json \<Rightarrow> exn + unit" where
  "demo_validate data =
     (case validate (\<lambda>c. c = CHR ''/'') (choice_set_of data) of
        Inl (ValidationError f allowed) \<Rightarrow> Inl (py_error (''Invalid '' @ f))
      | Inr u \<Rightarrow> Inr ())"

text \<open>
  A renderer for the concrete runs, of the shape the call sites fix: the constructor
  takes the choices and nothing else, and settles on the directory named after the
  project in the working directory of the process; \<^verbatim>\<open>generate_project\<close> puts a small
  tree there.
\<close>

definition demo_ProjectRenderer :: "json \<Rightarrow> os_state \<Rightarrow> (exn + path) \<times> os_state" where
  "demo_ProjectRenderer data s =
     (case subscript data ''project_name'' of
        Inl e \<Rightarrow> (Inl e, s)
      | Inr (JStr name) \<Rightarrow> (Inr (snd s @ [name]), s)
      | Inr other \<Rightarrow> (Inl (py_error ''TypeError''), s))"

definition demo_tree :: node where
  "demo_tree = Dir
     [(''README.md'', File (Bytes ''# demo'')),
      (''src'', Dir [(''train.py'', File (Bytes ''pass''))]),
      (''data'', Dir [])]"

definition demo_generate_project :: "path \<Rightarrow> os_state \<Rightarrow> (exn + unit) \<times> os_state" where
  "demo_generate_project output_dir s =
     (case store (fst s) output_dir demo_tree of
        None \<Rightarrow> (Inl (py_error ''FileNotFoundError''), s)
      | Some r \<Rightarrow> (Inr (), (r, snd s)))"

text \<open>A \<^verbatim>\<open>generate_project\<close> that changes the working directory and then raises.\<close>

definition failing_generate_project :: "path \<Rightarrow> os_state \<Rightarrow> (exn + unit) \<times> os_state" where
  "failing_generate_project output_dir s = (Inl (py_error ''RenderError''), (fst s, []))"

text \<open>
  The environment of a run that succeeds. The library functions are stand-ins that
  return what the real ones return on this request.
\<close>

definition demo_env :: "path env" where
  "demo_env =
     \<lparr>content_length = Some ''2'',
      py_int = (\<lambda>h. case h of None \<Rightarrow> Inl (py_error ''TypeError'') | Some s \<Rightarrow> Inr 2),
      rfile_read = (\<lambda>n. Inr ''{}''),
      decode_utf8 = Inr,
      json_loads = (\<lambda>s. Inr demo_choices),
      validate_choices = demo_validate,
      uuid4 = ''id1'',
      mkdtemp_path = [''tmp'', ''tmpab''],
      ProjectRenderer = demo_ProjectRenderer,
      generate_project = demo_generate_project,
      get_user_choices = Inr demo_choices,
      get_next_steps = (\<lambda>a b c. Inr [''cd demo'', ''pip install -r requirements.txt'']),
      str_title = id\<rparr>"

text \<open>The same, with the second scenario's choices: validation fails.\<close>

definition bogus_env :: "path env" where
  "bogus_env = demo_env\<lparr>json_loads := (\<lambda>s. Inr bogus_choices), get_user_choices := Inr bogus_choices\<rparr>"

text \<open>The same as the first, with the renderer that raises.\<close>

definition failing_env :: "path env" where
  "failing_env = demo_env\<lparr>generate_project := failing_generate_project\<rparr>"

text \<open>The same as the first, with no length header: reading the request fails.\<close>

definition headerless_env :: "path env" where
  "headerless_env = demo_env\<lparr>content_length := None\<rparr>"

text \<open>A state to start from: the process is in \<^verbatim>\<open>/srv\<close>, and \<^verbatim>\<open>/tmp\<close> is there.\<close>

definition demo_world :: world where
  "demo_world =
     \<lparr>root = Dir [(''srv'', Dir []), (''tmp'', Dir [])],
      cwd = [''srv''],
      wfile = [],
      console = [],
      calls = []\<rparr>"

section \<open>The options handler: what it answers\<close>

lemma statuses_append: "statuses (xs @ ys) = statuses xs @ statuses ys"
  by (induction xs rule: statuses.induct) simp_all

lemma bodies_append: "bodies (xs @ ys) = bodies xs @ bodies ys"
  by (induction xs rule: bodies.induct) simp_all

text \<open>
  Claim C4. Whatever was sent before, \<^verbatim>\<open>do_GET\<close> sends one response: status 200 and one
  JSON object as the body. The keys of the object are exactly framework, task\_type,
  experiment\_tracking, orchestration, deployment and monitoring; each is mapped to an
  array of objects whose keys are exactly value, label and description; and the value
  strings under each key are exactly the allowed values of the domain table of section 6,
  row by row. The response does not depend on the request: it is the same list of
  events every time.
\<close>

theorem C4_do_GET:
  "statuses (do_GET sent) = statuses sent @ [200] \<and>
   bodies (do_GET sent) = bodies sent @ [options] \<and>
   keys options =
     [''framework'', ''task_type'', ''experiment_tracking'', ''orchestration'',
      ''deployment'', ''monitoring''] \<and>
   map (\<lambda>(k, opts). (k, map keys (elements opts))) (members options) =
     map (\<lambda>(k, vs). (k, map (\<lambda>v. [''value'', ''label'', ''description'']) vs)) option_domain \<and>
   map (\<lambda>(k, opts). (k, map (str_member ''value'') (elements opts))) (members options) =
     map (\<lambda>(k, vs). (k, map Some vs)) option_domain \<and>
   drop (length sent) (do_GET sent) = do_GET []"
  by (simp add: do_GET_def statuses_append bodies_append options_def
      option_domain_def option_entry_def keys_def str_member_def)


section \<open>How statements run\<close>

text \<open>Taking a sequence apart: its first statement raised, or it returned and the rest ran.\<close>

lemma io_bindE:
  assumes "io_bind m f w = (r, w')"
  obtains (raised) e where "m w = (Inl e, w')" and "r = Inl e"
        | (returned) x w1 where "m w = (Inr x, w1)" and "f x w1 = (r, w')"
  using assms by (auto simp: io_bind_def split: sum.splits prod.splits)

text \<open>
  Taking \<^verbatim>\<open>try ... finally\<close> apart: the final statement ran after the body, and either it
  raised, or the body's outcome stands.
\<close>

lemma try_finallyE:
  assumes "try_finally m fin w = (r, w')"
  obtains (fin_raised) r1 w1 e where "m w = (r1, w1)" and "fin w1 = (Inl e, w')" and "r = Inl e"
        | (fin_returned) w1 where "m w = (r, w1)" and "fin w1 = (Inr (), w')"
  using assms by (auto simp: try_finally_def split: sum.splits prod.splits)

subsection \<open>What each call leaves of the state\<close>

lemma chdir_cases:
  assumes "chdir p w = (r, w')"
  shows "(r = Inr () \<and> w' = w\<lparr>cwd := p\<rparr> \<and> is_dir (root w) p)
       \<or> ((\<exists>e. r = Inl e) \<and> w' = w \<and> \<not> is_dir (root w) p)"
  using assms by (auto simp: chdir_def is_dir_def split: option.splits node.splits)

lemma getcwd_cases:
  assumes "getcwd w = (r, w')"
  shows "w' = w \<and> ((r = Inr (cwd w) \<and> is_dir (root w) (cwd w)) \<or> (\<exists>e. r = Inl e))"
  using assms by (auto simp: getcwd_def split: if_splits)

lemma mkdtemp_cases:
  assumes "mkdtemp env w = (r, w')"
  shows "cwd w' = cwd w \<and> wfile w' = wfile w \<and> console w' = console w \<and> calls w' = calls w \<and>
     ((\<exists>e. r = Inl e) \<and> w' = w \<or> r = Inr (mkdtemp_path env))"
  using assms by (auto simp: mkdtemp_def split: option.splits)

lemma mkdir_exist_ok_cases:
  assumes "mkdir_exist_ok p w = (r, w')"
  shows "cwd w' = cwd w \<and> wfile w' = wfile w \<and> console w' = console w \<and> calls w' = calls w \<and>
     ((\<exists>e. r = Inl e) \<and> w' = w \<or> r = Inr ())"
  using assms by (auto simp: mkdir_exist_ok_def split: option.splits node.splits)

lemma write_file_cases:
  assumes "write_file p d w = (r, w')"
  shows "cwd w' = cwd w \<and> wfile w' = wfile w \<and> console w' = console w \<and> calls w' = calls w \<and>
     ((\<exists>e. r = Inl e) \<and> w' = w \<or> r = Inr ())"
  using assms by (auto simp: write_file_def split: option.splits node.splits)

lemma write_zip_only_root:
  assumes "write_zip zp pd w = (r, w')"
  shows "cwd w' = cwd w \<and> wfile w' = wfile w \<and> console w' = console w \<and> calls w' = calls w"
  using assms unfolding write_zip_def
  by (elim io_bindE) (auto dest!: write_file_cases)

lemma call_ProjectRenderer_cases:
  assumes "call_ProjectRenderer env data w = (r, w')"
  shows "\<exists>x c. w' = w\<lparr>calls := calls w @ [Call_ProjectRenderer data (cwd w)], root := x, cwd := c\<rparr>"
  using assms by (auto simp: call_ProjectRenderer_def io_bind_def log_call_def lift_os_def
      split: prod.splits)

lemma call_generate_project_cases:
  assumes "call_generate_project env rd w = (r, w')"
  shows "\<exists>x c. w' = w\<lparr>calls := calls w @ [Call_generate_project (cwd w)], root := x, cwd := c\<rparr>"
  using assms by (auto simp: call_generate_project_def io_bind_def log_call_def lift_os_def
      split: prod.splits)

lemma send_json_run:
  "send_json code body w =
     (Inr (), w\<lparr>wfile := wfile w @
        [SendResponse code, SendHeader ''Content-type'' ''application/json'',
         SendHeader ''Access-Control-Allow-Origin'' ''*'', EndHeaders, WriteJson body]\<rparr>)"
  by (simp add: send_json_def io_bind_def send_response_def send_header_def end_headers_def
      wfile_write_json_def)

lemma call_validate_choices_run:
  "call_validate_choices env data w =
     (validate_choices env data, w\<lparr>calls := calls w @ [Call_validate_choices data]\<rparr>)"
  by (simp add: call_validate_choices_def io_bind_def log_call_def io_of_def)

subsection \<open>The rendering and the archive, inside the generate handler\<close>

text \<open>
  The rendering sends nothing and prints nothing; the log grows by the constructor's
  call, and by the call of \<^verbatim>\<open>generate_project\<close> when the constructor returned.
\<close>

lemma render_cases:
  assumes "render env data w = (r, w')"
  shows "wfile w' = wfile w \<and> console w' = console w \<and>
     (calls w' = calls w @ [Call_ProjectRenderer data (cwd w)] \<and> (\<exists>e. r = Inl e)
      \<or> (\<exists>p. calls w' = calls w @ [Call_ProjectRenderer data (cwd w), Call_generate_project p]))"
  using assms unfolding render_def
  by (elim io_bindE) (auto dest!: call_ProjectRenderer_cases call_generate_project_cases)

text \<open>
  Lines 40 to 45 leave the process in \<open>orig\<close>, unless the last \<^verbatim>\<open>chdir\<close> failed because
  \<open>orig\<close> is no directory any more.
\<close>

lemma render_in_cases:
  assumes "render_in env data pd orig w = (r, w')"
  shows "wfile w' = wfile w \<and> console w' = console w \<and>
     (calls w' = calls w \<and> (\<exists>e. r = Inl e)
      \<or> calls w' = calls w @ [Call_ProjectRenderer data pd] \<and> (\<exists>e. r = Inl e)
      \<or> (\<exists>p. calls w' = calls w @ [Call_ProjectRenderer data pd, Call_generate_project p])) \<and>
     (cwd w' = orig \<or> (\<exists>e. r = Inl e) \<and> \<not> is_dir (root w') orig)"
  using assms unfolding render_in_def
  apply (elim try_finallyE io_bindE)
  apply (auto dest!: chdir_cases render_cases)
  done

lemma generate_zip_cases:
  assumes "generate_zip env data tid w = (r, w')"
  shows "wfile w' = wfile w \<and> console w' = console w \<and>
     (calls w' = calls w \<and> (\<exists>e. r = Inl e)
      \<or> calls w' = calls w @ [Call_ProjectRenderer data (mkdtemp_path env @ [tid])] \<and> (\<exists>e. r = Inl e)
      \<or> (\<exists>p. calls w' = calls w @
            [Call_ProjectRenderer data (mkdtemp_path env @ [tid]), Call_generate_project p])) \<and>
     (cwd w' = cwd w \<or> (\<exists>e. r = Inl e) \<and> \<not> is_dir (root w') (cwd w))"
  using assms unfolding generate_zip_def Let_def
  apply (elim io_bindE)
      apply (auto dest!: mkdtemp_cases)[1]
     apply (auto dest!: mkdtemp_cases mkdir_exist_ok_cases)[1]
    apply (auto dest!: mkdtemp_cases mkdir_exist_ok_cases getcwd_cases)[1]
   apply (drule mkdtemp_cases, drule mkdir_exist_ok_cases, drule getcwd_cases, drule render_in_cases)
   apply auto[1]
  apply (drule mkdtemp_cases, drule mkdir_exist_ok_cases, drule getcwd_cases, drule render_in_cases,
      drule write_zip_only_root)
  apply auto
  done

subsection \<open>The generate handler, case by case\<close>

text \<open>
  \<^verbatim>\<open>do_POST\<close> by the outcome of its three stages. Sending never raises, so the handler
  of the inner \<^verbatim>\<open>try\<close> never hands an exception to the outer one, and a response that
  has been sent is the only one.
\<close>

lemma do_POST_cases:
  "do_POST env w =
     (case read_request env of
        Inl e \<Rightarrow>
          if is_Exception e then send_json 400 (error_response ''Invalid request: '' e) w
          else (Inl e, w)
      | Inr data \<Rightarrow>
          (case validate_choices env data of
             Inl e \<Rightarrow>
               if is_Exception e
               then send_json 400 (error_response ''Invalid request: '' e)
                      (w\<lparr>calls := calls w @ [Call_validate_choices data]\<rparr>)
               else (Inl e, w\<lparr>calls := calls w @ [Call_validate_choices data]\<rparr>)
           | Inr u \<Rightarrow>
               (case generate_zip env data (uuid4 env)
                       (w\<lparr>calls := calls w @ [Call_validate_choices data]\<rparr>) of
                  (Inl e, w2) \<Rightarrow>
                    if is_Exception e
                    then send_json 500 (error_response ''Generation failed: '' e) w2
                    else (Inl e, w2)
                | (Inr u, w2) \<Rightarrow> send_json 200 (response (uuid4 env)) w2)))"
  by (simp add: do_POST_def try_except_def io_bind_def io_of_def call_validate_choices_run
      send_json_run Let_def split: sum.splits prod.splits)


lemma do_POST_calls:
  assumes "do_POST env w = (r, w')"
  shows "(\<exists>e. read_request env = Inl e \<and> calls w' = calls w \<and> root w' = root w \<and> cwd w' = cwd w)
    \<or> (\<exists>data e. read_request env = Inr data \<and> validate_choices env data = Inl e \<and>
          calls w' = calls w @ [Call_validate_choices data] \<and> root w' = root w \<and> cwd w' = cwd w)
    \<or> (\<exists>data. read_request env = Inr data \<and> validate_choices env data = Inr () \<and>
          (calls w' = calls w @ [Call_validate_choices data]
           \<or> calls w' = calls w @ [Call_validate_choices data,
                 Call_ProjectRenderer data (mkdtemp_path env @ [uuid4 env])]
           \<or> (\<exists>p. calls w' = calls w @ [Call_validate_choices data,
                 Call_ProjectRenderer data (mkdtemp_path env @ [uuid4 env]),
                 Call_generate_project p])))"
proof (cases "read_request env")
  case (Inl e)
  with assms show ?thesis
    by (auto simp: do_POST_cases send_json_run split: if_splits)
next
  case (Inr data)
  show ?thesis
  proof (cases "validate_choices env data")
    case (Inl e)
    with Inr assms show ?thesis
      by (auto simp: do_POST_cases send_json_run split: if_splits)
  next
    case v: (Inr u)
    obtain r2 w2 where run: "generate_zip env data (uuid4 env)
        (w\<lparr>calls := calls w @ [Call_validate_choices data]\<rparr>) = (r2, w2)"
      by (cases "generate_zip env data (uuid4 env)
        (w\<lparr>calls := calls w @ [Call_validate_choices data]\<rparr>)")
    from assms Inr v run have same: "calls w' = calls w2"
      by (auto simp: do_POST_cases send_json_run split: if_splits sum.splits)
    from generate_zip_cases [OF run] same Inr v show ?thesis
      by auto
  qed
qed

subsection \<open>The concrete runs\<close>

lemma py_error_is_Exception: "is_Exception (py_error name)"
  by (simp add: py_error_def)

lemma demo_read_request: "read_request demo_env = Inr demo_choices"
  by (simp add: read_request_def demo_env_def)

lemma demo_validate_ok: "validate_choices demo_env demo_choices = Inr ()"
  by (simp add: demo_env_def demo_validate_def validate_def required_keys_def choice_set_of_def
      str_member_def demo_choices_def option_domain_def out_of_domain_def filesystem_safe_def)

lemma demo_generate_zip:
  "fst (generate_zip demo_env demo_choices (uuid4 demo_env)
      (snd (call_validate_choices demo_env demo_choices demo_world))) = Inr ()"
  by code_simp

lemma bogus_read_request: "read_request bogus_env = Inr bogus_choices"
  by (simp add: read_request_def bogus_env_def demo_env_def)

lemma bogus_validate_fails:
  "validate_choices bogus_env bogus_choices = Inl (py_error ''Invalid framework'')"
  by code_simp

lemma headerless_read_request: "read_request headerless_env = Inl (py_error ''TypeError'')"
  by (simp add: read_request_def headerless_env_def demo_env_def)

lemma failing_read_request: "read_request failing_env = Inr demo_choices"
  by (simp add: read_request_def failing_env_def demo_env_def)

lemma failing_validate_ok: "validate_choices failing_env demo_choices = Inr ()"
  by code_simp

lemma failing_generate_zip:
  "fst (generate_zip failing_env demo_choices (uuid4 failing_env)
      (snd (call_validate_choices failing_env demo_choices demo_world))) = Inl (py_error ''RenderError'')"
  by code_simp

section \<open>The command, case by case\<close>

lemma console_print_run:
  "console_print item w = (Inr (), w\<lparr>console := console w @ [item]\<rparr>)"
  by (simp add: console_print_def)

lemma call_get_user_choices_run:
  "call_get_user_choices env w =
     (get_user_choices env, w\<lparr>calls := calls w @ [Call_get_user_choices]\<rparr>)"
  by (simp add: call_get_user_choices_def io_bind_def log_call_def io_of_def)

lemma call_get_next_steps_run:
  "call_get_next_steps env a b c w =
     (get_next_steps env a b c, w\<lparr>calls := calls w @ [Call_get_next_steps a b c]\<rparr>)"
  by (simp add: call_get_next_steps_def io_bind_def log_call_def io_of_def)

lemma io_ofE:
  assumes "io_of x w = (r, w')"
  shows "w' = w \<and> r = x"
  using assms by (simp add: io_of_def)

text \<open>Lines 76 to 120 write no file and call nothing but \<^verbatim>\<open>get_next_steps\<close>.\<close>

lemma report_success_cases:
  assumes "report_success env choices w = (r, w')"
  shows "wfile w' = wfile w \<and> root w' = root w \<and> cwd w' = cwd w \<and>
     (calls w' = calls w \<or> (\<exists>a b c. calls w' = calls w @ [Call_get_next_steps a b c]))"
  using assms unfolding report_success_def
  by (elim io_bindE) (auto simp: console_print_run call_get_next_steps_run dest!: io_ofE)

lemma init_body_cases:
  assumes "init_body env w = (r, w')"
  shows "wfile w' = wfile w \<and>
    ((\<exists>e. get_user_choices env = Inl e \<and> r = Inl e \<and>
        w' = w\<lparr>calls := calls w @ [Call_get_user_choices]\<rparr>)
     \<or> (\<exists>c e. get_user_choices env = Inr c \<and> validate_choices env c = Inl e \<and> r = Inl e \<and>
        w' = w\<lparr>calls := calls w @ [Call_get_user_choices, Call_validate_choices c]\<rparr>)
     \<or> (\<exists>c. get_user_choices env = Inr c \<and> validate_choices env c = Inr () \<and>
          (calls w' = calls w @ [Call_get_user_choices, Call_validate_choices c,
              Call_ProjectRenderer c (cwd w)]
           \<or> (\<exists>p. calls w' = calls w @ [Call_get_user_choices, Call_validate_choices c,
                Call_ProjectRenderer c (cwd w), Call_generate_project p])
           \<or> (\<exists>p a b d. calls w' = calls w @ [Call_get_user_choices, Call_validate_choices c,
                Call_ProjectRenderer c (cwd w), Call_generate_project p,
                Call_get_next_steps a b d]))))"
  using assms unfolding init_body_def
  apply (elim io_bindE)
     apply (auto simp: call_get_user_choices_run)[1]
    apply (auto simp: call_get_user_choices_run call_validate_choices_run)[1]
   apply (auto simp: call_get_user_choices_run call_validate_choices_run dest!: render_cases)[1]
  apply (simp add: call_get_user_choices_run call_validate_choices_run)
  apply (drule render_cases, drule report_success_cases)
  apply auto
  done

text \<open>\<^verbatim>\<open>init\<close> by the outcome of its body: the handler of lines 122 to 126 prints and exits.\<close>

lemma init_cases:
  "init env w =
     (case init_body env (w\<lparr>console := console w @ [MainPanel, BlankLine]\<rparr>) of
        (Inl e, w3) \<Rightarrow>
          if is_Exception e
          then (Inl typer_Exit_1, w3\<lparr>console := console w3 @ [ErrorPanel (py_str e)]\<rparr>)
          else (Inl e, w3)
      | (Inr u, w3) \<Rightarrow> (Inr (), w3))"
  by (simp add: init_def io_bind_def console_print_run try_except_def io_raise_def
      split: sum.splits prod.splits)

lemma init_calls:
  assumes "init env w = (r, w')"
  shows "(\<exists>e. get_user_choices env = Inl e \<and> calls w' = calls w @ [Call_get_user_choices] \<and>
            root w' = root w \<and> cwd w' = cwd w)
     \<or> (\<exists>c e. get_user_choices env = Inr c \<and> validate_choices env c = Inl e \<and>
            calls w' = calls w @ [Call_get_user_choices, Call_validate_choices c] \<and>
            root w' = root w \<and> cwd w' = cwd w)
     \<or> (\<exists>c. get_user_choices env = Inr c \<and> validate_choices env c = Inr () \<and>
          (calls w' = calls w @ [Call_get_user_choices, Call_validate_choices c,
              Call_ProjectRenderer c (cwd w)]
           \<or> (\<exists>p. calls w' = calls w @ [Call_get_user_choices, Call_validate_choices c,
                Call_ProjectRenderer c (cwd w), Call_generate_project p])
           \<or> (\<exists>p a b d. calls w' = calls w @ [Call_get_user_choices, Call_validate_choices c,
                Call_ProjectRenderer c (cwd w), Call_generate_project p,
                Call_get_next_steps a b d])))"
proof -
  obtain r3 w3 where body: "init_body env (w\<lparr>console := console w @ [MainPanel, BlankLine]\<rparr>) = (r3, w3)"
    by (cases "init_body env (w\<lparr>console := console w @ [MainPanel, BlankLine]\<rparr>)")
  from assms body have same: "calls w' = calls w3 \<and> root w' = root w3 \<and> cwd w' = cwd w3"
    by (auto simp: init_cases split: sum.splits if_splits)
  from init_body_cases [OF body] same show ?thesis
    by auto
qed

text \<open>The rendering when the constructor raises, and when \<^verbatim>\<open>generate_project\<close> raises.\<close>

lemma render_constructor_raises:
  assumes "ProjectRenderer env c (root w, cwd w) = (Inl e, s)"
  shows "render env c w =
     (Inl e, w\<lparr>calls := calls w @ [Call_ProjectRenderer c (cwd w)], root := fst s, cwd := snd s\<rparr>)"
  using assms
  by (cases s) (simp add: render_def io_bind_def call_ProjectRenderer_def log_call_def lift_os_def)

lemma render_generate_project_raises:
  assumes "ProjectRenderer env c (root w, cwd w) = (Inr rd, s1)"
    and "generate_project env rd s1 = (Inl e, s2)"
  shows "render env c w =
     (Inl e, w\<lparr>calls := calls w @ [Call_ProjectRenderer c (cwd w), Call_generate_project (snd s1)],
                root := fst s2, cwd := snd s2\<rparr>)"
  using assms
  by (cases s1; cases s2)
    (simp add: render_def io_bind_def call_ProjectRenderer_def call_generate_project_def
      log_call_def lift_os_def)

lemma init_body_raises:
  assumes "get_user_choices env = Inl e
      \<or> (\<exists>c. get_user_choices env = Inr c \<and> validate_choices env c = Inl e)
      \<or> (\<exists>c s. get_user_choices env = Inr c \<and> validate_choices env c = Inr () \<and>
            ProjectRenderer env c (root w, cwd w) = (Inl e, s))
      \<or> (\<exists>c rd s1 s2. get_user_choices env = Inr c \<and> validate_choices env c = Inr () \<and>
            ProjectRenderer env c (root w, cwd w) = (Inr rd, s1) \<and>
            generate_project env rd s1 = (Inl e, s2))"
  shows "fst (init_body env w) = Inl e \<and> console (snd (init_body env w)) = console w"
  using assms
proof (elim disjE exE conjE)
  assume "get_user_choices env = Inl e"
  then show ?thesis
    by (simp add: init_body_def io_bind_def call_get_user_choices_run)
next
  fix c
  assume "get_user_choices env = Inr c" and "validate_choices env c = Inl e"
  then show ?thesis
    by (simp add: init_body_def io_bind_def call_get_user_choices_run call_validate_choices_run)
next
  fix c s
  assume g: "get_user_choices env = Inr c" and v: "validate_choices env c = Inr ()"
    and p: "ProjectRenderer env c (root w, cwd w) = (Inl e, s)"
  let ?w1 = "w\<lparr>calls := calls w @ [Call_get_user_choices, Call_validate_choices c]\<rparr>"
  have "ProjectRenderer env c (root ?w1, cwd ?w1) = (Inl e, s)"
    using p by simp
  from render_constructor_raises [OF this] g v show ?thesis
    by (simp add: init_body_def io_bind_def call_get_user_choices_run call_validate_choices_run)
next
  fix c rd s1 s2
  assume g: "get_user_choices env = Inr c" and v: "validate_choices env c = Inr ()"
    and p: "ProjectRenderer env c (root w, cwd w) = (Inr rd, s1)"
    and q: "generate_project env rd s1 = (Inl e, s2)"
  let ?w1 = "w\<lparr>calls := calls w @ [Call_get_user_choices, Call_validate_choices c]\<rparr>"
  have "ProjectRenderer env c (root ?w1, cwd ?w1) = (Inr rd, s1)"
    using p by simp
  from render_generate_project_raises [OF this q] g v show ?thesis
    by (simp add: init_body_def io_bind_def call_get_user_choices_run call_validate_choices_run)
qed

subsection \<open>The concrete runs of the command\<close>

lemma demo_get_user_choices: "get_user_choices demo_env = Inr demo_choices"
  by (simp add: demo_env_def)

lemma bogus_get_user_choices: "get_user_choices bogus_env = Inr bogus_choices"
  by (simp add: bogus_env_def demo_env_def)

lemma demo_do_POST_calls:
  "new_calls demo_world (snd (do_POST demo_env demo_world)) =
     [Call_validate_choices demo_choices,
      Call_ProjectRenderer demo_choices [''tmp'', ''tmpab'', ''id1''],
      Call_generate_project [''tmp'', ''tmpab'', ''id1'']]"
  by code_simp

lemma demo_init_calls:
  "new_calls demo_world (snd (init demo_env demo_world)) =
     [Call_get_user_choices, Call_validate_choices demo_choices,
      Call_ProjectRenderer demo_choices [''srv''], Call_generate_project [''srv''],
      Call_get_next_steps (JStr ''sklearn'') (JStr ''classification'') (JStr ''fastapi'')]"
  by code_simp

lemma failing_get_user_choices: "get_user_choices failing_env = Inr demo_choices"
  by (simp add: failing_env_def demo_env_def)

lemma failing_ProjectRenderer:
  "ProjectRenderer failing_env demo_choices (root demo_world, cwd demo_world) =
     (Inr [''srv'', ''demo''], (root demo_world, [''srv'']))"
  by (simp add: failing_env_def demo_env_def demo_ProjectRenderer_def subscript_def
      demo_choices_def demo_world_def)

lemma failing_generate_project:
  "generate_project failing_env [''srv'', ''demo''] (root demo_world, [''srv'']) =
     (Inl (py_error ''RenderError''), (root demo_world, []))"
  by (simp add: failing_env_def failing_generate_project_def)

section \<open>The file system tree and the archive\<close>

text \<open>Looking a path up in two steps.\<close>

lemma lookup_append:
  "lookup_path r (p @ q) = (case lookup_path r p of None \<Rightarrow> None | Some n \<Rightarrow> lookup_path n q)"
  "lookup_in es x (p @ q) = (case lookup_in es x p of None \<Rightarrow> None | Some n \<Rightarrow> lookup_path n q)"
  by (induction r p and es x p rule: lookup_path_lookup_in.induct) simp_all

text \<open>After a store, the node is at its path, and paths beside it are as before.\<close>

lemma lookup_store_same:
  "store r p n = Some r' \<Longrightarrow> lookup_path r' p = Some n"
  "store_in es x p n = Some es' \<Longrightarrow> lookup_in es' x p = Some n"
  by (induction r p n and es x p n arbitrary: r' and es' rule: store_store_in.induct)
    (auto split: if_splits)

lemma lookup_store_other:
  "store r p n = Some r' \<Longrightarrow> \<not> prefix p q \<Longrightarrow> \<not> prefix q p \<Longrightarrow>
     lookup_path r' q = lookup_path r q"
  "store_in es x p n = Some es' \<Longrightarrow> y \<noteq> x \<or> (\<not> prefix p q \<and> \<not> prefix q p) \<Longrightarrow>
     lookup_in es' y q = lookup_in es y q"
proof (induction r p n and es x p n arbitrary: r' q and es' y q rule: store_store_in.induct)
  case (2 es x p new)
  then show ?case by (cases q) auto
qed (auto split: if_splits)

text \<open>The walk lists every path below a node; none of its paths is empty.\<close>

lemma walk_complete:
  "lookup_path r p = Some n \<Longrightarrow> p \<noteq> [] \<Longrightarrow> p \<in> set (walk r)"
  "lookup_in es x p = Some n \<Longrightarrow> x # p \<in> set (walk_in es)"
proof (induction r p and es x p arbitrary: n and n rule: lookup_path_lookup_in.induct)
  case (6 y m es x p)
  show ?case
  proof (cases "x = y")
    case True
    show ?thesis
    proof (cases "p = []")
      case True
      with \<open>x = y\<close> show ?thesis by simp
    next
      case False
      from "6.prems" \<open>x = y\<close> have "lookup_path m p = Some n" by simp
      from "6.IH"(1) [OF \<open>x = y\<close> this False] \<open>x = y\<close> show ?thesis by simp
    qed
  next
    case False
    from "6.prems" False have "lookup_in es x p = Some n" by simp
    from "6.IH"(2) [OF False this] show ?thesis by simp
  qed
qed auto

lemma walk_nonempty:
  "[] \<notin> set (walk r)"
  "[] \<notin> set (walk_in es)"
  by (induction r and es rule: walk_walk_in.induct) auto

lemma is_file_iff: "is_file r p \<longleftrightarrow> (\<exists>d. lookup_path r p = Some (File d))"
  by (auto simp: is_file_def split: option.splits node.splits)

text \<open>The loop adds one entry for each path that is a regular file, under the relative path.\<close>

lemma zip_loop_set:
  "zip_loop r pd ps acc = Inr z \<Longrightarrow>
     set z = set acc \<union> {(drop (length pd) q, d) | q d. q \<in> set ps \<and> lookup_path r q = Some (File d)}"
proof (induction r pd ps acc arbitrary: z rule: zip_loop.induct)
  case (1 r pd zipf)
  then show ?case by simp
next
  case (2 r pd q rest zipf)
  show ?case
  proof (cases "is_file r q")
    case False
    then have no: "\<And>d. lookup_path r q \<noteq> Some (File d)"
      by (simp add: is_file_iff)
    from "2.prems" False have "zip_loop r pd rest zipf = Inr z" by simp
    from "2.IH"(2) [OF False this]
    have "set z = set zipf \<union>
        {(drop (length pd) q', d) | q' d. q' \<in> set rest \<and> lookup_path r q' = Some (File d)}" .
    also have "{(drop (length pd) q', d) | q' d. q' \<in> set rest \<and> lookup_path r q' = Some (File d)} =
        {(drop (length pd) q', d) | q' d. q' \<in> set (q # rest) \<and> lookup_path r q' = Some (File d)}"
      using no by fastforce
    finally show ?thesis .
  next
    case True
    then obtain d where d: "lookup_path r q = Some (File d)"
      by (auto simp: is_file_iff)
    from "2.prems" True obtain arc where arc: "relative_to q pd = Inr arc"
      by (cases "relative_to q pd") auto
    then have arc_eq: "arc = drop (length pd) q"
      by (auto simp: relative_to_def split: if_splits)
    have w: "zipf_write r q arc zipf = Inr (zipf @ [(arc, d)])"
      by (simp add: zipf_write_def d)
    from "2.prems" True arc w have "zip_loop r pd rest (zipf @ [(arc, d)]) = Inr z" by simp
    from "2.IH"(1) [OF True arc w this] d arc_eq show ?thesis by auto
  qed
qed

text \<open>The paths \<^verbatim>\<open>rglob\<close> gives: what lies below the directory, and only that.\<close>

lemma rglob_set:
  "set (rglob r pd) \<subseteq> {pd @ rel | rel. rel \<noteq> []}"
  "rel \<noteq> [] \<Longrightarrow> lookup_path r (pd @ rel) = Some n \<Longrightarrow> pd @ rel \<in> set (rglob r pd)"
proof -
  show "set (rglob r pd) \<subseteq> {pd @ rel | rel. rel \<noteq> []}"
    using walk_nonempty(2) by (auto simp: rglob_def split: option.splits node.splits)
  assume rel: "rel \<noteq> []" and l: "lookup_path r (pd @ rel) = Some n"
  then obtain x p where xp: "rel = x # p" by (cases rel) auto
  from l obtain m where m: "lookup_path r pd = Some m" and below: "lookup_path m rel = Some n"
    by (auto simp: lookup_append split: option.splits)
  from below xp obtain es where es: "m = Dir es" and "lookup_in es x p = Some n"
    by (cases m) auto
  then have "rel \<in> set (walk_in es)"
    using walk_complete(2) xp by blast
  with m es show "pd @ rel \<in> set (rglob r pd)"
    by (simp add: rglob_def)
qed

lemma zip_loop_rglob:
  assumes "zip_loop r pd (rglob r pd) [] = Inr z"
  shows "set z = {(rel, d). rel \<noteq> [] \<and> lookup_path r (pd @ rel) = Some (File d)}"
proof -
  have z: "set z = {(drop (length pd) q, d) | q d. q \<in> set (rglob r pd) \<and> lookup_path r q = Some (File d)}"
    using zip_loop_set [OF assms] by simp
  show ?thesis
  proof (intro set_eqI iffI)
    fix e
    assume "e \<in> set z"
    with z obtain q d where e: "e = (drop (length pd) q, d)" and q: "q \<in> set (rglob r pd)"
      and l: "lookup_path r q = Some (File d)"
      by blast
    from q rglob_set(1) [of r pd] obtain rel where rel: "q = pd @ rel" "rel \<noteq> []"
      by blast
    with e l show "e \<in> {(rel, d). rel \<noteq> [] \<and> lookup_path r (pd @ rel) = Some (File d)}"
      by simp
  next
    fix e
    assume "e \<in> {(rel, d). rel \<noteq> [] \<and> lookup_path r (pd @ rel) = Some (File d)}"
    then obtain rel d where e: "e = (rel, d)" and rel: "rel \<noteq> []"
      and l: "lookup_path r (pd @ rel) = Some (File d)"
      by blast
    from rglob_set(2) [OF rel l] have "pd @ rel \<in> set (rglob r pd)" .
    with l have "(drop (length pd) (pd @ rel), d) \<in> set z"
      unfolding z by blast
    with e show "e \<in> set z" by simp
  qed
qed

lemma write_file_store:
  assumes "write_file p d w = (Inr (), w')"
  shows "store (root w) p (File d) = Some (root w')"
  using assms by (auto simp: write_file_def split: option.splits node.splits)

text \<open>
  Where the names in every directory differ, the walk lists no path twice, and the
  archive has no two entries of one name.
\<close>

lemma walk_in_heads:
  "p \<in> set (walk_in es) \<Longrightarrow> \<exists>x q. p = x # q \<and> x \<in> fst ` set es"
proof (induction es)
  case Nil
  then show ?case by simp
next
  case (Cons e es)
  obtain y n where e: "e = (y, n)" by (cases e)
  from Cons.prems e consider "p = [y]" | "p \<in> (#) y ` set (walk n)" | "p \<in> set (walk_in es)"
    by auto
  then show ?case
  proof cases
    case 3
    from Cons.IH [OF this] show ?thesis by auto
  qed (use e in auto)
qed

lemma distinct_walk:
  "distinct_names r \<Longrightarrow> distinct (walk r)"
  "distinct_names_in es \<Longrightarrow> distinct (walk_in es)"
proof (induction r and es rule: walk_walk_in.induct)
  case (5 x n es)
  then have d: "distinct (walk n)" "distinct (walk_in es)" and x: "x \<notin> fst ` set es"
    by simp_all
  have "[x] \<notin> set (map ((#) x) (walk n))"
    using walk_nonempty(1) [of n] by auto
  moreover have "[x] \<notin> set (walk_in es)"
    using walk_in_heads [of "[x]" es] x by auto
  moreover have "set (map ((#) x) (walk n)) \<inter> set (walk_in es) = {}"
    using walk_in_heads [of _ es] x by fastforce
  moreover have "distinct (map ((#) x) (walk n))"
    using d(1) by (simp add: distinct_map)
  ultimately show ?case
    using d(2) by simp
qed simp_all

lemma distinct_names_lookup:
  "distinct_names r \<Longrightarrow> lookup_path r p = Some n \<Longrightarrow> distinct_names n"
  "distinct_names_in es \<Longrightarrow> lookup_in es x p = Some n \<Longrightarrow> distinct_names n"
  by (induction r p and es x p arbitrary: n and n rule: lookup_path_lookup_in.induct)
    (auto split: if_splits)

lemma zip_loop_names:
  "zip_loop r pd ps acc = Inr z \<Longrightarrow>
     map fst z = map fst acc @ map (drop (length pd)) (filter (is_file r) ps)"
proof (induction r pd ps acc arbitrary: z rule: zip_loop.induct)
  case (1 r pd zipf)
  then show ?case by simp
next
  case (2 r pd q rest zipf)
  show ?case
  proof (cases "is_file r q")
    case False
    with "2.prems" have "zip_loop r pd rest zipf = Inr z" by simp
    from "2.IH"(2) [OF False this] False show ?thesis by simp
  next
    case True
    then obtain d where d: "lookup_path r q = Some (File d)"
      by (auto simp: is_file_iff)
    from "2.prems" True obtain arc where arc: "relative_to q pd = Inr arc"
      by (cases "relative_to q pd") auto
    then have arc_eq: "arc = drop (length pd) q"
      by (auto simp: relative_to_def split: if_splits)
    have w: "zipf_write r q arc zipf = Inr (zipf @ [(arc, d)])"
      by (simp add: zipf_write_def d)
    from "2.prems" True arc w have "zip_loop r pd rest (zipf @ [(arc, d)]) = Inr z" by simp
    from "2.IH"(1) [OF True arc w this] True arc_eq show ?thesis by simp
  qed
qed

lemma distinct_rglob_names:
  assumes "\<And>n. lookup_path r pd = Some n \<Longrightarrow> distinct_names n"
  shows "distinct (map (drop (length pd)) (filter (is_file r) (rglob r pd)))"
proof (cases "lookup_path r pd")
  case None
  then show ?thesis by (simp add: rglob_def)
next
  case (Some n)
  show ?thesis
  proof (cases n)
    case (Dir es)
    from assms [OF Some] Dir have "distinct_names_in es" by simp
    then have d: "distinct (walk_in es)" by (rule distinct_walk(2))
    have "map (drop (length pd)) (filter (is_file r) (map ((@) pd) (walk_in es))) =
        filter (\<lambda>rel. is_file r (pd @ rel)) (walk_in es)"
      by (induction "walk_in es") (simp_all add: filter_map comp_def)
    with d Some Dir show ?thesis
      by (simp add: rglob_def)
  qed (use Some in \<open>simp_all add: rglob_def\<close>)
qed

text \<open>
  Lines 49 to 53 with the handler's two paths: the archive lies beside the project
  directory, so writing it changes nothing below the project directory.
\<close>

lemma write_zip_contents:
  assumes "write_zip (t @ [tid @ ''.zip'']) (t @ [tid]) w = (Inr (), w')"
  shows "\<exists>zipf. lookup_path (root w') (t @ [tid @ ''.zip'']) = Some (File (ZipArchive zipf)) \<and>
     set zipf = {(rel, d). rel \<noteq> [] \<and> lookup_path (root w') ((t @ [tid]) @ rel) = Some (File d)} \<and>
     (distinct_names (root w') \<longrightarrow> distinct (map fst zipf))"
proof -
  let ?zp = "t @ [tid @ ''.zip'']" and ?pd = "t @ [tid]"
  from assms obtain w1 zipf where
    opened: "write_file ?zp (ZipArchive []) w = (Inr (), w1)" and
    loop: "zip_loop (root w1) ?pd (rglob (root w1) ?pd) [] = Inr zipf" and
    closed: "write_file ?zp (ZipArchive zipf) w1 = (Inr (), w')"
    unfolding write_zip_def by (elim io_bindE) auto
  have beside: "\<not> prefix ?zp (?pd @ rel) \<and> \<not> prefix (?pd @ rel) ?zp" for rel
    by simp
  from write_file_store [OF closed] have st: "store (root w1) ?zp (File (ZipArchive zipf)) = Some (root w')" .
  have same: "lookup_path (root w') (?pd @ rel) = lookup_path (root w1) (?pd @ rel)" for rel
    using lookup_store_other(1) [OF st] beside by blast
  have "lookup_path (root w') ?zp = Some (File (ZipArchive zipf))"
    using lookup_store_same(1) [OF st] .
  moreover have "set zipf = {(rel, d). rel \<noteq> [] \<and> lookup_path (root w') (?pd @ rel) = Some (File d)}"
    using zip_loop_rglob [OF loop] same by simp
  moreover have "distinct (map fst zipf)" if wf: "distinct_names (root w')"
  proof -
    have "distinct_names n" if "lookup_path (root w1) ?pd = Some n" for n
      using distinct_names_lookup(1) [OF wf, of ?pd n] same [of "[]"] that by simp
    from distinct_rglob_names [of "root w1" ?pd, OF this] zip_loop_names [OF loop]
    show ?thesis by simp
  qed
  ultimately show ?thesis by blast
qed

lemma generate_zip_ends_with_write_zip:
  assumes "generate_zip env data tid w = (Inr (), w')"
  shows "\<exists>w3. write_zip (mkdtemp_path env @ [tid @ ''.zip'']) (mkdtemp_path env @ [tid]) w3 = (Inr (), w')"
  using assms unfolding generate_zip_def Let_def
  by (elim io_bindE) (auto dest!: mkdtemp_cases)

lemma demo_do_POST_status:
  "statuses (sent_by demo_world (snd (do_POST demo_env demo_world))) = [200]"
  by code_simp

lemma demo_do_POST_archive:
  "lookup_path (root (snd (do_POST demo_env demo_world))) [''tmp'', ''tmpab'', ''id1.zip''] =
     Some (File (ZipArchive
       [([''demo'', ''README.md''], Bytes ''# demo''),
        ([''demo'', ''src'', ''train.py''], Bytes ''pass'')]))"
  by code_simp

lemma demo_do_POST_distinct_names:
  "distinct_names (root (snd (do_POST demo_env demo_world)))"
  by code_simp

section \<open>The responses of the generate handler\<close>

lemma keys_response:
  "keys (response tid) = [''task_id'', ''status'', ''message'', ''download_url''] \<and>
   str_member ''status'' (response tid) = Some ''completed''"
  by (simp add: keys_def response_def str_member_def)

text \<open>
  Claim C1. For every request and every state, with the collaborators' exceptions being
  instances of \<^verbatim>\<open>Exception\<close>: when the request parses, validation returns and lines 34
  to 53 (temporary directory, rendering, archive) complete, \<^verbatim>\<open>do_POST\<close> sends status
  200 and a JSON object whose keys are exactly task\_id, status, message and
  download\_url, with status "completed"; when reading the request or validation
  raises \<open>e\<close>, it sends status 400 and the object with the one key error; when lines 34
  to 53 raise \<open>e\<close> after validation returned, it sends status 500 and the object with
  the one key error. In each case the response is all the handler sends.
\<close>

theorem C1_do_POST_responses:
  "(\<forall>data. read_request env = Inr data \<longrightarrow> validate_choices env data = Inr () \<longrightarrow>
      fst (generate_zip env data (uuid4 env) (snd (call_validate_choices env data w))) = Inr () \<longrightarrow>
      fst (do_POST env w) = Inr () \<and>
      sent_by w (snd (do_POST env w)) =
        [SendResponse 200, SendHeader ''Content-type'' ''application/json'',
         SendHeader ''Access-Control-Allow-Origin'' ''*'', EndHeaders,
         WriteJson (response (uuid4 env))] \<and>
      keys (response (uuid4 env)) = [''task_id'', ''status'', ''message'', ''download_url''] \<and>
      str_member ''status'' (response (uuid4 env)) = Some ''completed'')
   \<and> (\<forall>e. is_Exception e \<longrightarrow>
         (read_request env = Inl e
          \<or> (\<exists>data. read_request env = Inr data \<and> validate_choices env data = Inl e)) \<longrightarrow>
      fst (do_POST env w) = Inr () \<and>
      sent_by w (snd (do_POST env w)) =
        [SendResponse 400, SendHeader ''Content-type'' ''application/json'',
         SendHeader ''Access-Control-Allow-Origin'' ''*'', EndHeaders,
         WriteJson (JObj [(''error'', JStr (''Invalid request: '' @ py_str e))])])
   \<and> (\<forall>data e. is_Exception e \<longrightarrow> read_request env = Inr data \<longrightarrow>
         validate_choices env data = Inr () \<longrightarrow>
         fst (generate_zip env data (uuid4 env) (snd (call_validate_choices env data w))) = Inl e \<longrightarrow>
      fst (do_POST env w) = Inr () \<and>
      sent_by w (snd (do_POST env w)) =
        [SendResponse 500, SendHeader ''Content-type'' ''application/json'',
         SendHeader ''Access-Control-Allow-Origin'' ''*'', EndHeaders,
         WriteJson (JObj [(''error'', JStr (''Generation failed: '' @ py_str e))])])"
proof (intro conjI allI impI)
  fix data
  assume rd: "read_request env = Inr data" and v: "validate_choices env data = Inr ()"
    and g: "fst (generate_zip env data (uuid4 env) (snd (call_validate_choices env data w))) = Inr ()"
  obtain w2 where run: "generate_zip env data (uuid4 env)
      (w\<lparr>calls := calls w @ [Call_validate_choices data]\<rparr>) = (Inr (), w2)"
    using g by (cases "generate_zip env data (uuid4 env)
      (w\<lparr>calls := calls w @ [Call_validate_choices data]\<rparr>)") (simp add: call_validate_choices_run)
  from generate_zip_cases [OF run] have wf: "wfile w2 = wfile w" by simp
  show "fst (do_POST env w) = Inr ()"
    by (simp add: do_POST_cases rd v run send_json_run)
  show "sent_by w (snd (do_POST env w)) =
        [SendResponse 200, SendHeader ''Content-type'' ''application/json'',
         SendHeader ''Access-Control-Allow-Origin'' ''*'', EndHeaders,
         WriteJson (response (uuid4 env))]"
    by (simp add: do_POST_cases rd v run send_json_run wf sent_by_def)
  show "keys (response (uuid4 env)) = [''task_id'', ''status'', ''message'', ''download_url'']"
    by (simp add: keys_response)
  show "str_member ''status'' (response (uuid4 env)) = Some ''completed''"
    by (simp add: keys_response)
next
  fix e
  assume e: "is_Exception e"
    and f: "read_request env = Inl e
          \<or> (\<exists>data. read_request env = Inr data \<and> validate_choices env data = Inl e)"
  from f e show "fst (do_POST env w) = Inr ()"
    by (auto simp: do_POST_cases send_json_run)
  from f e show "sent_by w (snd (do_POST env w)) =
        [SendResponse 400, SendHeader ''Content-type'' ''application/json'',
         SendHeader ''Access-Control-Allow-Origin'' ''*'', EndHeaders,
         WriteJson (JObj [(''error'', JStr (''Invalid request: '' @ py_str e))])]"
    by (auto simp: do_POST_cases send_json_run error_response_def sent_by_def)
next
  fix data e
  assume e: "is_Exception e" and rd: "read_request env = Inr data"
    and v: "validate_choices env data = Inr ()"
    and g: "fst (generate_zip env data (uuid4 env) (snd (call_validate_choices env data w))) = Inl e"
  obtain w2 where run: "generate_zip env data (uuid4 env)
      (w\<lparr>calls := calls w @ [Call_validate_choices data]\<rparr>) = (Inl e, w2)"
    using g by (cases "generate_zip env data (uuid4 env)
      (w\<lparr>calls := calls w @ [Call_validate_choices data]\<rparr>)") (simp add: call_validate_choices_run)
  from generate_zip_cases [OF run] have wf: "wfile w2 = wfile w" by simp
  show "fst (do_POST env w) = Inr ()"
    by (simp add: do_POST_cases rd v run send_json_run e)
  show "sent_by w (snd (do_POST env w)) =
        [SendResponse 500, SendHeader ''Content-type'' ''application/json'',
         SendHeader ''Access-Control-Allow-Origin'' ''*'', EndHeaders,
         WriteJson (JObj [(''error'', JStr (''Generation failed: '' @ py_str e))])]"
    by (simp add: do_POST_cases rd v run send_json_run wf e error_response_def sent_by_def)
qed

text \<open>
  The theorem at four runs: one that succeeds, one with no length header, one whose
  choices fail validation, one whose renderer raises.
\<close>

theorem C1_do_POST_responses_witness:
  "read_request demo_env = Inr demo_choices \<and>
   validate_choices demo_env demo_choices = Inr () \<and>
   sent_by demo_world (snd (do_POST demo_env demo_world)) =
     [SendResponse 200, SendHeader ''Content-type'' ''application/json'',
      SendHeader ''Access-Control-Allow-Origin'' ''*'', EndHeaders,
      WriteJson (JObj
        [(''task_id'', JStr ''id1''), (''status'', JStr ''completed''),
         (''message'', JStr ''Project generated successfully''),
         (''download_url'', JStr ''/api/download?task_id=id1'')])] \<and>
   read_request headerless_env = Inl (py_error ''TypeError'') \<and>
   sent_by demo_world (snd (do_POST headerless_env demo_world)) =
     [SendResponse 400, SendHeader ''Content-type'' ''application/json'',
      SendHeader ''Access-Control-Allow-Origin'' ''*'', EndHeaders,
      WriteJson (JObj [(''error'', JStr ''Invalid request: TypeError'')])] \<and>
   validate_choices bogus_env bogus_choices = Inl (py_error ''Invalid framework'') \<and>
   sent_by demo_world (snd (do_POST bogus_env demo_world)) =
     [SendResponse 400, SendHeader ''Content-type'' ''application/json'',
      SendHeader ''Access-Control-Allow-Origin'' ''*'', EndHeaders,
      WriteJson (JObj [(''error'', JStr ''Invalid request: Invalid framework'')])] \<and>
   validate_choices failing_env demo_choices = Inr () \<and>
   sent_by demo_world (snd (do_POST failing_env demo_world)) =
     [SendResponse 500, SendHeader ''Content-type'' ''application/json'',
      SendHeader ''Access-Control-Allow-Origin'' ''*'', EndHeaders,
      WriteJson (JObj [(''error'', JStr ''Generation failed: RenderError'')])]"
proof -
  have uuid: "uuid4 demo_env = ''id1''"
    by (simp add: demo_env_def)
  have ok: "sent_by demo_world (snd (do_POST demo_env demo_world)) =
     [SendResponse 200, SendHeader ''Content-type'' ''application/json'',
      SendHeader ''Access-Control-Allow-Origin'' ''*'', EndHeaders,
      WriteJson (response ''id1'')]"
    using C1_do_POST_responses [of demo_env demo_world] demo_read_request demo_validate_ok
      demo_generate_zip uuid by simp
  have no_header: "sent_by demo_world (snd (do_POST headerless_env demo_world)) =
     [SendResponse 400, SendHeader ''Content-type'' ''application/json'',
      SendHeader ''Access-Control-Allow-Origin'' ''*'', EndHeaders,
      WriteJson (JObj [(''error'', JStr (''Invalid request: '' @ py_str (py_error ''TypeError'')))])]"
    using C1_do_POST_responses [of headerless_env demo_world] headerless_read_request
      py_error_is_Exception [of "''TypeError''"] by blast
  have bogus: "sent_by demo_world (snd (do_POST bogus_env demo_world)) =
     [SendResponse 400, SendHeader ''Content-type'' ''application/json'',
      SendHeader ''Access-Control-Allow-Origin'' ''*'', EndHeaders,
      WriteJson (JObj [(''error'', JStr (''Invalid request: '' @ py_str (py_error ''Invalid framework'')))])]"
    using C1_do_POST_responses [of bogus_env demo_world] bogus_read_request bogus_validate_fails
      py_error_is_Exception [of "''Invalid framework''"] by blast
  have failing: "sent_by demo_world (snd (do_POST failing_env demo_world)) =
     [SendResponse 500, SendHeader ''Content-type'' ''application/json'',
      SendHeader ''Access-Control-Allow-Origin'' ''*'', EndHeaders,
      WriteJson (JObj [(''error'', JStr (''Generation failed: '' @ py_str (py_error ''RenderError'')))])]"
    using C1_do_POST_responses [of failing_env demo_world] failing_read_request failing_validate_ok
      failing_generate_zip py_error_is_Exception [of "''RenderError''"] by blast
  show ?thesis
    using ok no_header bogus failing demo_read_request demo_validate_ok headerless_read_request
      bogus_validate_fails failing_validate_ok
    by (simp add: response_def py_error_def)
qed

section \<open>Validation comes before rendering\<close>

text \<open>
  Claim C2. In the HTTP flow and in the interactive flow alike: once the choices are
  there (the request parsed, the prompts returned), the first call is
  \<^verbatim>\<open>validate_choices\<close> on them; when it raises, no further call is made and the file
  system is as it was on entry; and every call of the renderer (its constructor or
  \<^verbatim>\<open>generate_project\<close>) in the log of the run comes after a call of
  \<^verbatim>\<open>validate_choices\<close> on the same choices that returned without raising.
\<close>

theorem C2_validation_precedes_rendering:
  "(\<forall>data. read_request env = Inr data \<longrightarrow>
      (\<exists>rest. new_calls w (snd (do_POST env w)) = Call_validate_choices data # rest))
   \<and> (\<forall>data e. read_request env = Inr data \<longrightarrow> validate_choices env data = Inl e \<longrightarrow>
      new_calls w (snd (do_POST env w)) = [Call_validate_choices data] \<and>
      root (snd (do_POST env w)) = root w)
   \<and> (\<forall>c \<in> set (new_calls w (snd (do_POST env w))). is_render_call c \<longrightarrow>
      (\<exists>data rest. read_request env = Inr data \<and> validate_choices env data = Inr () \<and>
         new_calls w (snd (do_POST env w)) = Call_validate_choices data # rest))
   \<and> (\<forall>choices. get_user_choices env = Inr choices \<longrightarrow>
      (\<exists>rest. new_calls w (snd (init env w)) =
         Call_get_user_choices # Call_validate_choices choices # rest))
   \<and> (\<forall>choices e. get_user_choices env = Inr choices \<longrightarrow> validate_choices env choices = Inl e \<longrightarrow>
      new_calls w (snd (init env w)) = [Call_get_user_choices, Call_validate_choices choices] \<and>
      root (snd (init env w)) = root w)
   \<and> (\<forall>c \<in> set (new_calls w (snd (init env w))). is_render_call c \<longrightarrow>
      (\<exists>choices rest. get_user_choices env = Inr choices \<and> validate_choices env choices = Inr () \<and>
         new_calls w (snd (init env w)) =
           Call_get_user_choices # Call_validate_choices choices # rest))"
proof -
  have post: "do_POST env w = (fst (do_POST env w), snd (do_POST env w))"
    by simp
  have cli: "init env w = (fst (init env w), snd (init env w))"
    by simp
  show ?thesis
    using do_POST_calls [OF post] init_calls [OF cli]
    unfolding new_calls_def
    by (intro conjI) auto
qed

text \<open>
  The theorem at the run that succeeds (the renderer is called, after validation) and at
  the run whose choices fail validation (nothing is written), in both flows.
\<close>

theorem C2_validation_precedes_rendering_witness:
  "read_request demo_env = Inr demo_choices \<and>
   validate_choices demo_env demo_choices = Inr () \<and>
   new_calls demo_world (snd (do_POST demo_env demo_world)) =
     [Call_validate_choices demo_choices,
      Call_ProjectRenderer demo_choices [''tmp'', ''tmpab'', ''id1''],
      Call_generate_project [''tmp'', ''tmpab'', ''id1'']] \<and>
   read_request bogus_env = Inr bogus_choices \<and>
   validate_choices bogus_env bogus_choices = Inl (py_error ''Invalid framework'') \<and>
   new_calls demo_world (snd (do_POST bogus_env demo_world)) = [Call_validate_choices bogus_choices] \<and>
   root (snd (do_POST bogus_env demo_world)) = root demo_world \<and>
   get_user_choices bogus_env = Inr bogus_choices \<and>
   new_calls demo_world (snd (init bogus_env demo_world)) =
     [Call_get_user_choices, Call_validate_choices bogus_choices] \<and>
   root (snd (init bogus_env demo_world)) = root demo_world \<and>
   new_calls demo_world (snd (init demo_env demo_world)) =
     [Call_get_user_choices, Call_validate_choices demo_choices,
      Call_ProjectRenderer demo_choices [''srv''], Call_generate_project [''srv''],
      Call_get_next_steps (JStr ''sklearn'') (JStr ''classification'') (JStr ''fastapi'')]"
proof -
  note bogus = C2_validation_precedes_rendering [where env = bogus_env and w = demo_world]
  have http: "new_calls demo_world (snd (do_POST bogus_env demo_world)) = [Call_validate_choices bogus_choices] \<and>
      root (snd (do_POST bogus_env demo_world)) = root demo_world"
    using bogus bogus_read_request bogus_validate_fails by blast
  have cli: "new_calls demo_world (snd (init bogus_env demo_world)) =
        [Call_get_user_choices, Call_validate_choices bogus_choices] \<and>
      root (snd (init bogus_env demo_world)) = root demo_world"
    using bogus bogus_get_user_choices bogus_validate_fails by blast
  show ?thesis
    using http cli demo_read_request demo_validate_ok bogus_read_request bogus_validate_fails
      bogus_get_user_choices demo_do_POST_calls demo_init_calls
    by simp
qed

section \<open>The validator of the specification\<close>

lemma find_SomeD: "find P xs = Some x \<Longrightarrow> x \<in> set xs \<and> P x"
  by (induction xs) (auto split: if_splits)

lemma validate_ok_iff:
  "validate unsafe cs = Inr () \<longleftrightarrow>
     (\<forall>k \<in> set required_keys. cs k \<noteq> None) \<and>
     (\<forall>row \<in> set option_domain. \<not> out_of_domain cs row) \<and>
     (\<exists>name. cs ''project_name'' = Some name \<and> filesystem_safe unsafe name)"
proof -
  have pn: "''project_name'' \<in> set required_keys"
    by (simp add: required_keys_def)
  show ?thesis
    using pn
    by (auto simp: validate_def find_None_iff split: option.splits dest: find_SomeD)
qed

lemma allowed_values_row:
  "row \<in> set option_domain \<Longrightarrow> allowed_values (fst row) = snd row"
  by (auto simp: option_domain_def allowed_values_def)

lemma validate_error_offending:
  assumes "validate unsafe cs = Inl (ValidationError f allowed)"
  shows "offending unsafe cs f \<and> allowed = allowed_values f"
proof (cases "find (\<lambda>k. cs k = None) required_keys")
  case (Some k)
  with assms have "f = k" "allowed = allowed_values k"
    by (auto simp: validate_def)
  with find_SomeD [OF Some] show ?thesis
    by (simp add: offending_def)
next
  case None
  show ?thesis
  proof (cases "find (out_of_domain cs) option_domain")
    case (Some row)
    with None assms have f: "f = fst row" "allowed = snd row"
      by (simp_all add: validate_def)
    from find_SomeD [OF Some] have row: "row \<in> set option_domain" "out_of_domain cs row"
      by simp_all
    then have "list_ex (\<lambda>row. fst row = f \<and> out_of_domain cs row) option_domain"
      unfolding list_ex_iff using f by blast
    with f allowed_values_row [OF row(1)] show ?thesis
      by (simp add: offending_def)
  next
    case dom: None
    with None assms have "f = ''project_name''" "allowed = []"
      and "case cs ''project_name'' of None \<Rightarrow> True | Some name \<Rightarrow> \<not> filesystem_safe unsafe name"
      by (auto simp: validate_def split: option.splits if_splits)
    then show ?thesis
      by (simp add: offending_def allowed_values_def option_domain_def)
  qed
qed

lemma demo_validate_value:
  "validate (\<lambda>c. c = CHR ''/'') (choice_set_of demo_choices) = Inr ()"
  by code_simp

lemma bogus_validate_value:
  "validate (\<lambda>c. c = CHR ''/'') (choice_set_of bogus_choices) =
     Inl (ValidationError ''framework'' [''sklearn'', ''pytorch'', ''tensorflow''])"
  by code_simp

text \<open>
  Claim C3, on the validator modelled from section 4.1. \<open>validate\<close> succeeds if and only
  if every required key is present, every option of the domain table that is present
  has a value of its row, and \<^verbatim>\<open>project_name\<close> is non-empty with no unsafe character.
  When it fails, the error names a field that offends (a required key that is missing, an
  option whose value is outside its domain, or the project name) together with the
  allowed values of that field; and it does fail whenever a required key is missing or
  a value is outside its domain.
\<close>

theorem C3_validate:
  "(validate unsafe cs = Inr () \<longleftrightarrow>
      (\<forall>k \<in> set required_keys. cs k \<noteq> None) \<and>
      (\<forall>(k, allowed) \<in> set option_domain. \<forall>v. cs k = Some v \<longrightarrow> v \<in> set allowed) \<and>
      (\<exists>name. cs ''project_name'' = Some name \<and> name \<noteq> [] \<and> \<not> list_ex unsafe name))
   \<and> (\<forall>f allowed. validate unsafe cs = Inl (ValidationError f allowed) \<longrightarrow>
        offending unsafe cs f \<and> allowed = allowed_values f)
   \<and> ((\<exists>k \<in> set required_keys. cs k = None)
        \<or> (\<exists>(k, allowed) \<in> set option_domain. \<exists>v. cs k = Some v \<and> v \<notin> set allowed) \<longrightarrow>
       (\<exists>f. validate unsafe cs = Inl (ValidationError f (allowed_values f)) \<and> offending unsafe cs f))"
proof (intro conjI)
  have ood: "out_of_domain cs row \<longleftrightarrow> (\<exists>v. cs (fst row) = Some v \<and> v \<notin> set (snd row))" for row
    by (auto simp: out_of_domain_def split: option.splits)
  show iff: "validate unsafe cs = Inr () \<longleftrightarrow>
      (\<forall>k \<in> set required_keys. cs k \<noteq> None) \<and>
      (\<forall>(k, allowed) \<in> set option_domain. \<forall>v. cs k = Some v \<longrightarrow> v \<in> set allowed) \<and>
      (\<exists>name. cs ''project_name'' = Some name \<and> name \<noteq> [] \<and> \<not> list_ex unsafe name)"
    unfolding validate_ok_iff ood filesystem_safe_def by (simp add: case_prod_beta)
  show err: "\<forall>f allowed. validate unsafe cs = Inl (ValidationError f allowed) \<longrightarrow>
        offending unsafe cs f \<and> allowed = allowed_values f"
    using validate_error_offending by blast
  show "(\<exists>k \<in> set required_keys. cs k = None)
        \<or> (\<exists>(k, allowed) \<in> set option_domain. \<exists>v. cs k = Some v \<and> v \<notin> set allowed) \<longrightarrow>
       (\<exists>f. validate unsafe cs = Inl (ValidationError f (allowed_values f)) \<and> offending unsafe cs f)"
  proof
    assume bad: "(\<exists>k \<in> set required_keys. cs k = None)
        \<or> (\<exists>(k, allowed) \<in> set option_domain. \<exists>v. cs k = Some v \<and> v \<notin> set allowed)"
    then have "validate unsafe cs \<noteq> Inr ()"
      unfolding iff by (auto simp: case_prod_beta)
    then obtain f allowed where e: "validate unsafe cs = Inl (ValidationError f allowed)"
      by (cases "validate unsafe cs") (auto intro: validation_error.exhaust)
    with err have "offending unsafe cs f" "allowed = allowed_values f"
      by blast+
    with e show "\<exists>f. validate unsafe cs = Inl (ValidationError f (allowed_values f)) \<and> offending unsafe cs f"
      by blast
  qed
qed

text \<open>
  The theorem at the two example scenarios of section 8: the first validates, the second
  fails naming \<^verbatim>\<open>framework\<close> and listing sklearn, pytorch and tensorflow.
\<close>

theorem C3_validate_witness:
  "validate (\<lambda>c. c = CHR ''/'') (choice_set_of demo_choices) = Inr () \<and>
   (\<exists>name. choice_set_of demo_choices ''project_name'' = Some name \<and> name \<noteq> [] \<and>
      \<not> list_ex (\<lambda>c. c = CHR ''/'') name) \<and>
   choice_set_of bogus_choices ''framework'' = Some ''bogus'' \<and>
   validate (\<lambda>c. c = CHR ''/'') (choice_set_of bogus_choices) =
     Inl (ValidationError ''framework'' [''sklearn'', ''pytorch'', ''tensorflow'']) \<and>
   offending (\<lambda>c. c = CHR ''/'') (choice_set_of bogus_choices) ''framework'' \<and>
   allowed_values ''framework'' = [''sklearn'', ''pytorch'', ''tensorflow'']"
proof -
  note demo = C3_validate [where unsafe = "\<lambda>c. c = CHR ''/''" and cs = "choice_set_of demo_choices"]
  note bogus = C3_validate [where unsafe = "\<lambda>c. c = CHR ''/''" and cs = "choice_set_of bogus_choices"]
  have a: "\<exists>name. choice_set_of demo_choices ''project_name'' = Some name \<and> name \<noteq> [] \<and>
      \<not> list_ex (\<lambda>c. c = CHR ''/'') name"
    using demo demo_validate_value by blast
  have b: "offending (\<lambda>c. c = CHR ''/'') (choice_set_of bogus_choices) ''framework'' \<and>
      [''sklearn'', ''pytorch'', ''tensorflow''] = allowed_values ''framework''"
    using bogus bogus_validate_value by blast
  have c: "choice_set_of bogus_choices ''framework'' = Some ''bogus''"
    by (simp add: choice_set_of_def str_member_def bogus_choices_def)
  from a b c demo_validate_value bogus_validate_value show ?thesis
    by simp
qed

section \<open>Deployment choices of the specification's renderer\<close>

text \<open>Generated into an empty directory, the files are those of the emitted groups.\<close>

lemma dom_generate_empty:
  "dom (generate tpl cs target_dir Map.empty) = (\<lambda>rel. target_dir @ rel) ` set (file_paths tpl cs)"
proof (intro set_eqI iffI)
  fix p
  assume "p \<in> dom (generate tpl cs target_dir Map.empty)"
  then have t: "take (length target_dir) p = target_dir"
    and d: "drop (length target_dir) p \<in> set (file_paths tpl cs)"
    by (auto simp: generate_def dom_def split: if_splits)
  from t have "p = target_dir @ drop (length target_dir) p"
    by (metis append_take_drop_id)
  with d show "p \<in> (\<lambda>rel. target_dir @ rel) ` set (file_paths tpl cs)"
    by blast
next
  fix p
  assume "p \<in> (\<lambda>rel. target_dir @ rel) ` set (file_paths tpl cs)"
  then show "p \<in> dom (generate tpl cs target_dir Map.empty)"
    by (auto simp: generate_def dom_def)
qed

lemma artifacts_docker_kubernetes:
  "set (artifacts (cs(''deployment'' \<mapsto> ''docker''))) \<subseteq>
   set (artifacts (cs(''deployment'' \<mapsto> ''kubernetes'')))"
  by (auto simp: artifacts_def chosen_def deployment_artifacts_def)

text \<open>
  Claim C7, on the renderer modelled from section 4.2. With all other fields equal, the
  file groups emitted for \<^verbatim>\<open>deployment = kubernetes\<close> include those emitted for
  \<^verbatim>\<open>deployment = docker\<close>, and so do the file paths and the files generated into an
  empty target directory: kubernetes adds its manifests to the Dockerfile.
\<close>

theorem C7_kubernetes_extends_docker:
  "set (artifacts (cs(''deployment'' \<mapsto> ''docker''))) \<subseteq>
     set (artifacts (cs(''deployment'' \<mapsto> ''kubernetes''))) \<and>
   set (file_paths tpl (cs(''deployment'' \<mapsto> ''docker''))) \<subseteq>
     set (file_paths tpl (cs(''deployment'' \<mapsto> ''kubernetes''))) \<and>
   dom (generate tpl (cs(''deployment'' \<mapsto> ''docker'')) target_dir Map.empty) \<subseteq>
     dom (generate tpl (cs(''deployment'' \<mapsto> ''kubernetes'')) target_dir Map.empty) \<and>
   Dockerfile \<in> set (artifacts (cs(''deployment'' \<mapsto> ''docker''))) \<and>
   K8sManifests \<in> set (artifacts (cs(''deployment'' \<mapsto> ''kubernetes'')))"
proof -
  have f: "set (file_paths tpl (cs(''deployment'' \<mapsto> ''docker''))) \<subseteq>
     set (file_paths tpl (cs(''deployment'' \<mapsto> ''kubernetes'')))"
    using artifacts_docker_kubernetes [of cs] by (auto simp: file_paths_def)
  have a: "Dockerfile \<in> set (artifacts (cs(''deployment'' \<mapsto> ''docker'')))"
    "K8sManifests \<in> set (artifacts (cs(''deployment'' \<mapsto> ''kubernetes'')))"
    by (simp_all add: artifacts_def chosen_def deployment_artifacts_def)
  from f a artifacts_docker_kubernetes [of cs] show ?thesis
    unfolding dom_generate_empty by blast
qed

section \<open>Errors in the interactive flow\<close>

text \<open>
  Claim C8. When collecting the choices, validating them, constructing the renderer or
  \<^verbatim>\<open>generate_project\<close> raises an exception \<open>e\<close> (an instance of \<^verbatim>\<open>Exception\<close>),
  \<^verbatim>\<open>init\<close> prints the banner, an empty line and the error panel with \<^verbatim>\<open>str(e)\<close>, in
  this order and nothing after, and raises \<^verbatim>\<open>typer.Exit(1)\<close>, whose exit code is 1.
  No collaborator is called twice in a run: there is no retry. And \<^verbatim>\<open>init\<close> ends in one
  of three ways only: it returns, it raises \<^verbatim>\<open>typer.Exit(1)\<close>, or it lets through an
  exception that is not an instance of \<^verbatim>\<open>Exception\<close>.
\<close>

theorem C8_init_exits_with_code_1:
  "(\<forall>e. is_Exception e \<longrightarrow>
      (get_user_choices env = Inl e
       \<or> (\<exists>c. get_user_choices env = Inr c \<and> validate_choices env c = Inl e)
       \<or> (\<exists>c s. get_user_choices env = Inr c \<and> validate_choices env c = Inr () \<and>
             ProjectRenderer env c (root w, cwd w) = (Inl e, s))
       \<or> (\<exists>c rd s1 s2. get_user_choices env = Inr c \<and> validate_choices env c = Inr () \<and>
             ProjectRenderer env c (root w, cwd w) = (Inr rd, s1) \<and>
             generate_project env rd s1 = (Inl e, s2))) \<longrightarrow>
      fst (init env w) = Inl typer_Exit_1 \<and>
      console (snd (init env w)) = console w @ [MainPanel, BlankLine, ErrorPanel (py_str e)])
   \<and> exit_code typer_Exit_1 = Some 1
   \<and> distinct (map callee (new_calls w (snd (init env w))))
   \<and> (fst (init env w) = Inr () \<or> fst (init env w) = Inl typer_Exit_1
       \<or> (\<exists>e. fst (init env w) = Inl e \<and> \<not> is_Exception e))"
proof (intro conjI allI impI)
  fix e
  assume e: "is_Exception e"
    and f: "get_user_choices env = Inl e
       \<or> (\<exists>c. get_user_choices env = Inr c \<and> validate_choices env c = Inl e)
       \<or> (\<exists>c s. get_user_choices env = Inr c \<and> validate_choices env c = Inr () \<and>
             ProjectRenderer env c (root w, cwd w) = (Inl e, s))
       \<or> (\<exists>c rd s1 s2. get_user_choices env = Inr c \<and> validate_choices env c = Inr () \<and>
             ProjectRenderer env c (root w, cwd w) = (Inr rd, s1) \<and>
             generate_project env rd s1 = (Inl e, s2))"
  let ?w2 = "w\<lparr>console := console w @ [MainPanel, BlankLine]\<rparr>"
  have "get_user_choices env = Inl e
       \<or> (\<exists>c. get_user_choices env = Inr c \<and> validate_choices env c = Inl e)
       \<or> (\<exists>c s. get_user_choices env = Inr c \<and> validate_choices env c = Inr () \<and>
             ProjectRenderer env c (root ?w2, cwd ?w2) = (Inl e, s))
       \<or> (\<exists>c rd s1 s2. get_user_choices env = Inr c \<and> validate_choices env c = Inr () \<and>
             ProjectRenderer env c (root ?w2, cwd ?w2) = (Inr rd, s1) \<and>
             generate_project env rd s1 = (Inl e, s2))"
    using f by simp
  from init_body_raises [OF this]
  have body: "fst (init_body env ?w2) = Inl e" "console (snd (init_body env ?w2)) = console ?w2"
    by simp_all
  obtain w3 where run: "init_body env ?w2 = (Inl e, w3)"
    using body(1) by (cases "init_body env ?w2") simp
  with body(2) have c3: "console w3 = console w @ [MainPanel, BlankLine]"
    by simp
  show "fst (init env w) = Inl typer_Exit_1"
    by (simp add: init_cases run e)
  show "console (snd (init env w)) = console w @ [MainPanel, BlankLine, ErrorPanel (py_str e)]"
    by (simp add: init_cases run e c3)
next
  show "exit_code typer_Exit_1 = Some 1"
    by (simp add: typer_Exit_1_def)
next
  have cli: "init env w = (fst (init env w), snd (init env w))"
    by simp
  from init_calls [OF cli] show "distinct (map callee (new_calls w (snd (init env w))))"
    unfolding new_calls_def by auto
next
  show "fst (init env w) = Inr () \<or> fst (init env w) = Inl typer_Exit_1
       \<or> (\<exists>e. fst (init env w) = Inl e \<and> \<not> is_Exception e)"
    by (auto simp: init_cases split: prod.splits sum.splits)
qed

text \<open>
  The theorem at the run whose choices fail validation and at the run whose
  \<^verbatim>\<open>generate_project\<close> raises.
\<close>

theorem C8_init_exits_with_code_1_witness:
  "get_user_choices bogus_env = Inr bogus_choices \<and>
   validate_choices bogus_env bogus_choices = Inl (py_error ''Invalid framework'') \<and>
   fst (init bogus_env demo_world) = Inl typer_Exit_1 \<and>
   console (snd (init bogus_env demo_world)) =
     [MainPanel, BlankLine, ErrorPanel ''Invalid framework''] \<and>
   generate_project failing_env [''srv'', ''demo''] (root demo_world, [''srv'']) =
     (Inl (py_error ''RenderError''), (root demo_world, [])) \<and>
   fst (init failing_env demo_world) = Inl typer_Exit_1 \<and>
   console (snd (init failing_env demo_world)) =
     [MainPanel, BlankLine, ErrorPanel ''RenderError''] \<and>
   exit_code typer_Exit_1 = Some 1"
proof -
  have a: "fst (init bogus_env demo_world) = Inl typer_Exit_1 \<and>
      console (snd (init bogus_env demo_world)) =
        console demo_world @ [MainPanel, BlankLine, ErrorPanel (py_str (py_error ''Invalid framework''))]"
    using C8_init_exits_with_code_1 [where env = bogus_env and w = demo_world]
      bogus_get_user_choices bogus_validate_fails py_error_is_Exception [of "''Invalid framework''"]
    by blast
  have b: "fst (init failing_env demo_world) = Inl typer_Exit_1 \<and>
      console (snd (init failing_env demo_world)) =
        console demo_world @ [MainPanel, BlankLine, ErrorPanel (py_str (py_error ''RenderError''))]"
    using C8_init_exits_with_code_1 [where env = failing_env and w = demo_world]
      failing_get_user_choices failing_validate_ok failing_ProjectRenderer
      failing_generate_project py_error_is_Exception [of "''RenderError''"]
    by blast
  show ?thesis
    using a b bogus_get_user_choices bogus_validate_fails failing_generate_project
    by (simp add: py_error_def demo_world_def typer_Exit_1_def)
qed

section \<open>The working directory after the generate handler\<close>



section \<open>What the archive holds\<close>

text \<open>
  Claim C10. Whenever \<^verbatim>\<open>do_POST\<close> answers 200, the file \<^verbatim>\<open>temp_dir / (task_id + ".zip")\<close>
  is a ZIP archive whose entries are exactly the regular files below the project
  directory \<^verbatim>\<open>temp_dir / task_id\<close>, as the file system is when the handler is done:
  each entry has the path of a file relative to the project directory as its name and
  the data of the file as its content, and every regular file below the directory has
  its entry. Directories and special files have none. Where the names in every
  directory differ, as they do on a disk, no two entries of the archive have the same
  name.
\<close>

theorem C10_archive_holds_the_regular_files:
  "200 \<in> set (statuses (sent_by w (snd (do_POST env w)))) \<longrightarrow>
     (\<exists>zipf.
        lookup_path (root (snd (do_POST env w))) (mkdtemp_path env @ [uuid4 env @ ''.zip''])
          = Some (File (ZipArchive zipf)) \<and>
        set zipf =
          {(rel, d). rel \<noteq> [] \<and>
             lookup_path (root (snd (do_POST env w))) ((mkdtemp_path env @ [uuid4 env]) @ rel)
               = Some (File d)} \<and>
        (distinct_names (root (snd (do_POST env w))) \<longrightarrow> distinct (map fst zipf)))"
proof
  assume ok: "200 \<in> set (statuses (sent_by w (snd (do_POST env w))))"
  show "\<exists>zipf.
        lookup_path (root (snd (do_POST env w))) (mkdtemp_path env @ [uuid4 env @ ''.zip''])
          = Some (File (ZipArchive zipf)) \<and>
        set zipf =
          {(rel, d). rel \<noteq> [] \<and>
             lookup_path (root (snd (do_POST env w))) ((mkdtemp_path env @ [uuid4 env]) @ rel)
               = Some (File d)} \<and>
        (distinct_names (root (snd (do_POST env w))) \<longrightarrow> distinct (map fst zipf))"
  proof (cases "read_request env")
    case (Inl e)
    with ok show ?thesis
      by (simp add: do_POST_cases send_json_run sent_by_def split: if_splits)
  next
    case (Inr data)
    show ?thesis
    proof (cases "validate_choices env data")
      case (Inl e)
      with Inr ok show ?thesis
        by (simp add: do_POST_cases send_json_run sent_by_def split: if_splits)
    next
      case v: (Inr u)
      obtain r2 w2 where run: "generate_zip env data (uuid4 env)
          (w\<lparr>calls := calls w @ [Call_validate_choices data]\<rparr>) = (r2, w2)"
        by (cases "generate_zip env data (uuid4 env)
          (w\<lparr>calls := calls w @ [Call_validate_choices data]\<rparr>)")
      from generate_zip_cases [OF run] have wf: "wfile w2 = wfile w" by simp
      show ?thesis
      proof (cases r2)
        case (Inl e)
        with Inr v run wf ok show ?thesis
          by (simp add: do_POST_cases send_json_run sent_by_def split: if_splits)
      next
        case r2: (Inr u2)
        with Inr v run have same: "root (snd (do_POST env w)) = root w2"
          by (simp add: do_POST_cases send_json_run)
        from run r2 have "generate_zip env data (uuid4 env)
          (w\<lparr>calls := calls w @ [Call_validate_choices data]\<rparr>) = (Inr (), w2)"
          by simp
        from generate_zip_ends_with_write_zip [OF this] obtain w3 where
          "write_zip (mkdtemp_path env @ [uuid4 env @ ''.zip'']) (mkdtemp_path env @ [uuid4 env]) w3
             = (Inr (), w2)" ..
        from write_zip_contents [OF this] same show ?thesis
          by simp
      qed
    qed
  qed
qed

text \<open>
  The theorem at the run that succeeds: two files in the archive, the directories
  \<^verbatim>\<open>demo\<close>, \<^verbatim>\<open>demo/src\<close> and \<^verbatim>\<open>demo/data\<close> left out.
\<close>

theorem C10_archive_holds_the_regular_files_witness:
  "200 \<in> set (statuses (sent_by demo_world (snd (do_POST demo_env demo_world)))) \<and>
   lookup_path (root (snd (do_POST demo_env demo_world))) [''tmp'', ''tmpab'', ''id1.zip''] =
     Some (File (ZipArchive
       [([''demo'', ''README.md''], Bytes ''# demo''),
        ([''demo'', ''src'', ''train.py''], Bytes ''pass'')])) \<and>
   {([''demo'', ''README.md''], Bytes ''# demo''), ([''demo'', ''src'', ''train.py''], Bytes ''pass'')} =
     {(rel, d). rel \<noteq> [] \<and>
        lookup_path (root (snd (do_POST demo_env demo_world))) ([''tmp'', ''tmpab'', ''id1''] @ rel)
          = Some (File d)} \<and>
   distinct_names (root (snd (do_POST demo_env demo_world)))"
proof -
  have ok: "200 \<in> set (statuses (sent_by demo_world (snd (do_POST demo_env demo_world))))"
    by (simp add: demo_do_POST_status)
  have paths: "mkdtemp_path demo_env = [''tmp'', ''tmpab'']" "uuid4 demo_env = ''id1''"
    by (simp_all add: demo_env_def)
  from C10_archive_holds_the_regular_files [where env = demo_env and w = demo_world] ok
  obtain zipf where
    z: "lookup_path (root (snd (do_POST demo_env demo_world))) (mkdtemp_path demo_env @ [uuid4 demo_env @ ''.zip''])
          = Some (File (ZipArchive zipf))" and
    s: "set zipf = {(rel, d). rel \<noteq> [] \<and>
          lookup_path (root (snd (do_POST demo_env demo_world))) ((mkdtemp_path demo_env @ [uuid4 demo_env]) @ rel)
            = Some (File d)}"
    by blast
  from z have "zipf = [([''demo'', ''README.md''], Bytes ''# demo''),
        ([''demo'', ''src'', ''train.py''], Bytes ''pass'')]"
    by (simp add: paths demo_do_POST_archive)
  with s ok demo_do_POST_archive demo_do_POST_distinct_names show ?thesis
    by (simp add: paths)
qed

end
